theory Spec2Isabelle
  imports Complex_Main "HOL-Library.Multiset"
begin

section \<open>Numbers as the notebook sees them\<close>

text \<open>
  The notebook \<^verbatim>\<open>1-generalizability.ipynb\<close> computes with numpy floats. A value is
  either not-a-number or a finite number; in the model of the cells finite numbers are
  idealised as reals, so rounding error, overflow and the infinities of IEEE arithmetic
  are outside it. Every operation returns \<open>NaN\<close> as soon as one operand is \<open>NaN\<close>, as
  numpy does. The section on rounding further down gives the same operations with every
  result rounded to double precision; it decides whether the order of the replicates can
  change the standard error.
\<close>

datatype npfloat = NaN | Fin real

fun fadd :: "npfloat \<Rightarrow> npfloat \<Rightarrow> npfloat" where
  "fadd (Fin a) (Fin b) = Fin (a + b)"
| "fadd _ _ = NaN"

fun fsub :: "npfloat \<Rightarrow> npfloat \<Rightarrow> npfloat" where
  "fsub (Fin a) (Fin b) = Fin (a - b)"
| "fsub _ _ = NaN"

fun fmul :: "npfloat \<Rightarrow> npfloat \<Rightarrow> npfloat" where
  "fmul (Fin a) (Fin b) = Fin (a * b)"
| "fmul _ _ = NaN"

text \<open>
  Division by zero: \<open>0 / 0\<close> is not-a-number in numpy. A non-zero number divided by zero
  is an infinity there; the model has no infinities and that case is never reached by the
  code below (the only zero divisors are those of \<open>np_std\<close> on fewer than two values,
  where the dividend is zero or not-a-number).
\<close>

fun fdiv :: "npfloat \<Rightarrow> npfloat \<Rightarrow> npfloat" where
  "fdiv (Fin a) (Fin b) = (if b = 0 then NaN else Fin (a / b))"
| "fdiv _ _ = NaN"

fun fsqrt :: "npfloat \<Rightarrow> npfloat" where
  "fsqrt (Fin a) = (if a < 0 then NaN else Fin (sqrt a))"
| "fsqrt NaN = NaN"

text \<open>\<^verbatim>\<open>np.sum\<close>: the values are added up from zero.\<close>

definition np_sum :: "npfloat list \<Rightarrow> npfloat" where
  "np_sum xs = foldl fadd (Fin 0) xs"

text \<open>\<^verbatim>\<open>np.mean\<close>: the sum over the number of values (not-a-number on no values).\<close>

definition np_mean :: "npfloat list \<Rightarrow> npfloat" where
  "np_mean xs = fdiv (np_sum xs) (Fin (real (length xs)))"

text \<open>
  \<^verbatim>\<open>np.std(a, ddof=k)\<close>: the mean is subtracted from every value, the squares are summed,
  the sum is divided by \<open>max (n - k) 0\<close> (the subtraction on naturals truncates at zero)
  and the root is taken.
\<close>

definition np_std :: "npfloat list \<Rightarrow> nat \<Rightarrow> npfloat" where
  "np_std xs ddof =
     (let m = np_mean xs;
          sq = map (\<lambda>x. fmul (fsub x m) (fsub x m)) xs
      in fsqrt (fdiv (np_sum sq) (Fin (real (length xs - ddof)))))"

text \<open>
  \<^verbatim>\<open>np.round(x, decimals)\<close>: scale, round to the nearest integer with ties going to the
  even neighbour, scale back.
\<close>

definition rint :: "real \<Rightarrow> int" where
  "rint r =
     (let f = \<lfloor>r\<rfloor>; d = r - of_int f
      in if d < 1 / 2 then f else if 1 / 2 < d then f + 1
         else if even f then f else f + 1)"

fun np_round :: "npfloat \<Rightarrow> nat \<Rightarrow> npfloat" where
  "np_round NaN decimals = NaN"
| "np_round (Fin r) decimals = Fin (of_int (rint (r * 10 ^ decimals)) / 10 ^ decimals)"

text \<open>
  The last three lines of every bootstrap cell:
  \<^verbatim>\<open>
  se = np.std(rd_bs, ddof=1)
  print('95% LCL:', np.round(rd - 1.96*se, 3))
  print('95% UCL:', np.round(rd + 1.96*se, 3))
  \<close>
  \<open>conf_limits\<close> gives the two bounds before they are rounded for printing,
  \<open>print_limits\<close> the two printed numbers.
\<close>

definition conf_limits :: "npfloat \<Rightarrow> npfloat list \<Rightarrow> npfloat \<times> npfloat" where
  "conf_limits rd rd_bs =
     (let se = np_std rd_bs 1
      in (fsub rd (fmul (Fin 1.96) se), fadd rd (fmul (Fin 1.96) se)))"

definition print_limits :: "npfloat \<Rightarrow> npfloat list \<Rightarrow> npfloat \<times> npfloat" where
  "print_limits rd rd_bs =
     (let (lcl, ucl) = conf_limits rd rd_bs in (np_round lcl 3, np_round ucl 3))"

section \<open>Data frames and the external library\<close>

text \<open>
  One record of the data set loaded by \<^verbatim>\<open>load_generalize_data\<close>, with the column
  \<^verbatim>\<open>W_sq\<close> the notebook adds and the column \<^verbatim>\<open>iptw\<close> it adds in the observational part.
  A missing entry of a float column is \<open>NaN\<close>, as in pandas; \<open>col_iptw = None\<close> says that
  the frame the row belongs to has no \<^verbatim>\<open>iptw\<close> column. A data frame is the list of its
  rows in order, and every row carries the label it has in the index of its frame.
\<close>

record row =
  row_label :: nat
  col_id :: int
  col_Y :: npfloat
  col_A :: npfloat
  col_S :: int
  col_L :: int
  col_W :: npfloat
  col_W_sq :: npfloat
  col_iptw :: "npfloat option"

text \<open>What the notebook reads from a fitted estimator object.\<close>

record estimate =
  risk_difference :: npfloat
  risk_ratio :: npfloat

datatype pyerr = IndexError | ValueError | NameError | LibraryError string

text \<open>
  The notebook calls the estimators of the package \<^verbatim>\<open>zepid\<close> and the random generator
  of numpy; neither is part of the repository. They are parameters of the model:
  \<^item> \<open>IPSW df exposure outcome selection generalize weights model\<close> stands for
    \<^verbatim>\<open>IPSW(df, exposure=, outcome=, selection=, generalize=, weights=)\<close> followed by
    \<^verbatim>\<open>regression_models(model)\<close> and \<^verbatim>\<open>fit()\<close>;
  \<^item> \<open>GTransportFormula\<close> likewise with \<^verbatim>\<open>outcome_model(model)\<close>;
  \<^item> \<open>AIPSW\<close> likewise with \<^verbatim>\<open>weight_model\<close> and then \<^verbatim>\<open>outcome_model\<close>;
  \<^item> \<open>IPTW df treatment outcome model\<close> stands for \<^verbatim>\<open>IPTW(df, treatment=, outcome=)\<close>,
    \<^verbatim>\<open>treatment_model(model)\<close> and the attribute \<^verbatim>\<open>iptw\<close>: the weights in the order
    of the rows of \<open>df\<close>, a Series whose labels are the positions 0, 1, 2, ...;
  \<^item> \<open>choice g a n replace\<close> stands for the draw of \<open>n\<close> row positions below \<open>a\<close> that
    \<^verbatim>\<open>DataFrame.sample(n=n, replace=replace)\<close> asks of the global generator in state
    \<open>g\<close>; it returns the positions and the next state.
  Any of the estimator calls may raise.
\<close>

record 'g library =
  load_generalize_data :: "bool \<Rightarrow> row list"
  IPSW :: "row list \<Rightarrow> string \<Rightarrow> string \<Rightarrow> string \<Rightarrow> bool \<Rightarrow> string option \<Rightarrow> string
             \<Rightarrow> pyerr + estimate"
  GTransportFormula :: "row list \<Rightarrow> string \<Rightarrow> string \<Rightarrow> string \<Rightarrow> bool \<Rightarrow> string option \<Rightarrow> string
             \<Rightarrow> pyerr + estimate"
  AIPSW :: "row list \<Rightarrow> string \<Rightarrow> string \<Rightarrow> string \<Rightarrow> bool \<Rightarrow> string option \<Rightarrow> string \<Rightarrow> string
             \<Rightarrow> pyerr + estimate"
  IPTW :: "row list \<Rightarrow> string \<Rightarrow> string \<Rightarrow> string \<Rightarrow> pyerr + npfloat list"
  choice :: "'g \<Rightarrow> nat \<Rightarrow> nat \<Rightarrow> bool \<Rightarrow> nat list \<times> 'g"

text \<open>
  A fresh index, the labels 0, 1, 2, ... in the order of the rows: what a frame has when
  it is loaded (\<^verbatim>\<open>df.info()\<close> prints \<^verbatim>\<open>RangeIndex: 3000 entries, 0 to 2999\<close>) and what
  \<^verbatim>\<open>ignore_index=True\<close> gives.
\<close>

definition range_index :: "row list \<Rightarrow> row list" where
  "range_index rows = map (\<lambda>(i, r). r\<lparr>row_label := i\<rparr>) (zip [0..<length rows] rows)"

text \<open>\<^verbatim>\<open>df.loc[df['S'] == v].copy()\<close>: the rows keep their labels.\<close>

definition df_loc_S :: "row list \<Rightarrow> int \<Rightarrow> row list" where
  "df_loc_S df v = filter (\<lambda>r. col_S r = v) df"

text \<open>\<^verbatim>\<open>df['W_sq'] = df['W']**2\<close>\<close>

definition add_W_sq :: "row list \<Rightarrow> row list" where
  "add_W_sq df = map (\<lambda>r. r\<lparr>col_W_sq := fmul (col_W r) (col_W r)\<rparr>) df"

text \<open>
  \<^verbatim>\<open>rows.sample(n=n, replace=True)\<close>: \<open>n\<close> positions are drawn with replacement and the
  rows at these positions are taken, in the order drawn and with the labels they have. A
  position outside the frame raises.
\<close>

definition df_sample :: "'g library \<Rightarrow> 'g \<Rightarrow> row list \<Rightarrow> nat \<Rightarrow> pyerr + (row list \<times> 'g)" where
  "df_sample lib g rows n =
     (let (locs, g') = choice lib g (length rows) n True
      in if list_all (\<lambda>i. i < length rows) locs
         then Inr (map (\<lambda>i. rows ! i) locs, g')
         else Inl IndexError)"

text \<open>
  \<^verbatim>\<open>pd.concat(frames, ignore_index=...)\<close> (\<^verbatim>\<open>sort=False\<close> keeps the columns in place):
  the rows of the frames one after the other. The result has the \<^verbatim>\<open>iptw\<close> column as soon
  as one row has it, and a row that came without it gets a missing value there. The rows
  keep their labels, repeated ones too, unless \<^verbatim>\<open>ignore_index=True\<close> asks for a fresh
  index.
\<close>

definition fill_iptw :: "row \<Rightarrow> row" where
  "fill_iptw r = (case col_iptw r of None \<Rightarrow> r\<lparr>col_iptw := Some NaN\<rparr> | Some w \<Rightarrow> r)"

definition pd_concat :: "row list list \<Rightarrow> bool \<Rightarrow> row list" where
  "pd_concat frames ignore_index =
     (let rows = concat frames;
          filled = (if list_ex (\<lambda>r. col_iptw r \<noteq> None) rows then map fill_iptw rows else rows)
      in if ignore_index then range_index filled else filled)"

text \<open>
  \<^verbatim>\<open>dfs['iptw'] = ipt.iptw\<close>: pandas stores a Series by label, not by position. The
  Series has the labels 0, 1, 2, ..., so a row receives the weight that stands at the
  position named by its own label, and a missing value when its label is beyond the
  Series. Rows that share a label receive the same weight.
\<close>

definition set_iptw :: "row list \<Rightarrow> npfloat list \<Rightarrow> row list" where
  "set_iptw dfs w =
     map (\<lambda>r. r\<lparr>col_iptw := Some (if row_label r < length w then w ! row_label r else NaN)\<rparr>)
       dfs"

section \<open>The notebook\<close>

text \<open>
  The variables that live from one cell to a later one: the data frame \<^verbatim>\<open>df\<close>, the
  point estimate \<^verbatim>\<open>rd\<close> (unbound until a cell assigns it) and the state of the global
  random generator. Every other variable is assigned in the cell that reads it.
\<close>

record 'g notebook =
  nb_df :: "row list"
  nb_rd :: "npfloat option"
  nb_rng :: 'g

subsection \<open>Loading the data (cells 1 and 9)\<close>

definition cell1 :: "'g library \<Rightarrow> 'g notebook \<Rightarrow> pyerr + 'g notebook" where
  "cell1 lib st = Inr (st\<lparr>nb_df := add_W_sq (range_index (load_generalize_data lib False))\<rparr>)"

definition cell9 :: "'g library \<Rightarrow> 'g notebook \<Rightarrow> pyerr + 'g notebook" where
  "cell9 lib st = Inr (st\<lparr>nb_df := add_W_sq (range_index (load_generalize_data lib True))\<rparr>)"

subsection \<open>The paired bootstrap shared by cells 4, 6, 8, 12 and 15\<close>

text \<open>
  Steps 2 and 3 of every loop body are the same three lines:
  \<^verbatim>\<open>
  dfs = dfss.sample(n=dfss.shape[0], replace=True)
  dft = dftp.sample(n=dftp.shape[0], replace=True)
  dfb = pd.concat([dfs, dft])
  \<close>
\<close>

definition resample_stack ::
  "'g library \<Rightarrow> row list \<Rightarrow> row list \<Rightarrow> 'g \<Rightarrow> pyerr + (row list \<times> 'g)" where
  "resample_stack lib dfss dftp g =
     (case df_sample lib g dfss (length dfss) of
        Inl e \<Rightarrow> Inl e
      | Inr (dfs, g1) \<Rightarrow>
          (case df_sample lib g1 dftp (length dftp) of
             Inl e \<Rightarrow> Inl e
           | Inr (dft, g2) \<Rightarrow> Inr (pd_concat [dfs, dft] False, g2)))"

text \<open>
  \<^verbatim>\<open>for i in range(B): ...; rd_bs.append(est.risk_difference)\<close>, for a loop body that
  maps the generator state to the replicate's risk difference and the next state. An
  exception in the body leaves the loop.
\<close>

fun bootstrap_loop ::
  "('g \<Rightarrow> pyerr + (npfloat \<times> 'g)) \<Rightarrow> nat \<Rightarrow> 'g \<Rightarrow> npfloat list \<Rightarrow> pyerr + (npfloat list \<times> 'g)" where
  "bootstrap_loop body 0 g rd_bs = Inr (rd_bs, g)"
| "bootstrap_loop body (Suc k) g rd_bs =
     (case body g of
        Inl e \<Rightarrow> Inl e
      | Inr (r, g') \<Rightarrow> bootstrap_loop body k g' (rd_bs @ [r]))"

text \<open>
  A whole bootstrap cell: step 1 divides the data, the loop collects \<open>B\<close> risk
  differences, and the two limits are printed from the variable \<^verbatim>\<open>rd\<close> as it is bound
  when the cell runs.
\<close>

definition bootstrap_cell ::
  "(row list \<Rightarrow> row list \<Rightarrow> 'g \<Rightarrow> pyerr + (npfloat \<times> 'g)) \<Rightarrow> nat \<Rightarrow> 'g notebook
     \<Rightarrow> pyerr + ('g notebook \<times> (npfloat \<times> npfloat))" where
  "bootstrap_cell body B st =
     (let dfss = df_loc_S (nb_df st) 1;
          dftp = df_loc_S (nb_df st) 0
      in case bootstrap_loop (body dfss dftp) B (nb_rng st) [] of
           Inl e \<Rightarrow> Inl e
         | Inr (rd_bs, g') \<Rightarrow>
             (case nb_rd st of
                None \<Rightarrow> Inl NameError
              | Some rd \<Rightarrow> Inr (st\<lparr>nb_rng := g'\<rparr>, print_limits rd rd_bs)))"

text \<open>
  Steps 4 and 5 differ from cell to cell; \<open>fit\<close> stands for them. It maps the stacked
  resample to the fitted estimator, whose risk difference is appended to \<^verbatim>\<open>rd_bs\<close>.
\<close>

definition loop_body ::
  "'g library \<Rightarrow> (row list \<Rightarrow> pyerr + estimate) \<Rightarrow> row list \<Rightarrow> row list \<Rightarrow> 'g
     \<Rightarrow> pyerr + (npfloat \<times> 'g)" where
  "loop_body lib fit dfss dftp g =
     (case resample_stack lib dfss dftp g of
        Inl e \<Rightarrow> Inl e
      | Inr (dfb, g') \<Rightarrow>
          (case fit dfb of
             Inl e \<Rightarrow> Inl e
           | Inr est \<Rightarrow> Inr (risk_difference est, g')))"

subsection \<open>Randomized trial: cells 3 to 8\<close>

text \<open>The model formulas, as each cell writes them.\<close>

definition cell3_model :: string where
  "cell3_model = ''L + W + W_sq + L:W + L:W_sq''"

definition cell4_model :: string where
  "cell4_model = ''L + W + L:W''"

definition cell5_model :: string where
  "cell5_model = ''A + L + W + W_sq + A:L + A:W + A:W_sq''"

definition cell6_model :: string where
  "cell6_model = ''A + L + W + W_sq + A:L + A:W + A:W_sq''"

definition cell7_weight_model :: string where
  "cell7_weight_model = ''L + W + W_sq + L:W + L:W_sq''"

definition cell7_outcome_model :: string where
  "cell7_outcome_model = ''A + L + W + W_sq + A:L + A:W + A:W_sq''"

definition cell8_weight_model :: string where
  "cell8_weight_model = ''L + W + W_sq + L:W + L:W_sq''"

definition cell8_outcome_model :: string where
  "cell8_outcome_model = ''A + L + W + W_sq + A:L + A:W + A:W_sq''"

text \<open>
  Cell 3:
  \<^verbatim>\<open>
  ipsw = IPSW(df, exposure='A', outcome='Y', selection='S', generalize=True)
  ipsw.regression_models('L + W + W_sq + L:W + L:W_sq', print_results=False)
  ipsw.fit()
  rd = ipsw.risk_difference
  \<close>
\<close>

definition cell3_ipsw :: "'g library \<Rightarrow> row list \<Rightarrow> pyerr + estimate" where
  "cell3_ipsw lib df = IPSW lib df ''A'' ''Y'' ''S'' True None cell3_model"

definition cell3 :: "'g library \<Rightarrow> 'g notebook \<Rightarrow> pyerr + 'g notebook" where
  "cell3 lib st =
     (case cell3_ipsw lib (nb_df st) of
        Inl e \<Rightarrow> Inl e
      | Inr ipsw \<Rightarrow> Inr (st\<lparr>nb_rd := Some (risk_difference ipsw)\<rparr>))"

text \<open>Cell 4, step 4: the same call on \<^verbatim>\<open>dfb\<close> with \<^verbatim>\<open>regression_models('L + W + L:W')\<close>.\<close>

definition cell4_ipsw :: "'g library \<Rightarrow> row list \<Rightarrow> pyerr + estimate" where
  "cell4_ipsw lib dfb = IPSW lib dfb ''A'' ''Y'' ''S'' True None cell4_model"

definition cell4 ::
  "'g library \<Rightarrow> 'g notebook \<Rightarrow> pyerr + ('g notebook \<times> (npfloat \<times> npfloat))" where
  "cell4 lib st = bootstrap_cell (loop_body lib (cell4_ipsw lib)) 200 st"

text \<open>Cells 5 and 6: \<^verbatim>\<open>GTransportFormula\<close> with \<^verbatim>\<open>outcome_model\<close>.\<close>

definition cell5_gtf :: "'g library \<Rightarrow> row list \<Rightarrow> pyerr + estimate" where
  "cell5_gtf lib df = GTransportFormula lib df ''A'' ''Y'' ''S'' True None cell5_model"

definition cell5 :: "'g library \<Rightarrow> 'g notebook \<Rightarrow> pyerr + 'g notebook" where
  "cell5 lib st =
     (case cell5_gtf lib (nb_df st) of
        Inl e \<Rightarrow> Inl e
      | Inr gtf \<Rightarrow> Inr (st\<lparr>nb_rd := Some (risk_difference gtf)\<rparr>))"

definition cell6_gtf :: "'g library \<Rightarrow> row list \<Rightarrow> pyerr + estimate" where
  "cell6_gtf lib dfb = GTransportFormula lib dfb ''A'' ''Y'' ''S'' True None cell6_model"

definition cell6 ::
  "'g library \<Rightarrow> 'g notebook \<Rightarrow> pyerr + ('g notebook \<times> (npfloat \<times> npfloat))" where
  "cell6 lib st = bootstrap_cell (loop_body lib (cell6_gtf lib)) 200 st"

text \<open>Cells 7 and 8: \<^verbatim>\<open>AIPSW\<close> with \<^verbatim>\<open>weight_model\<close> and \<^verbatim>\<open>outcome_model\<close>.\<close>

definition cell7_aipw :: "'g library \<Rightarrow> row list \<Rightarrow> pyerr + estimate" where
  "cell7_aipw lib df =
     AIPSW lib df ''A'' ''Y'' ''S'' True None cell7_weight_model cell7_outcome_model"

definition cell7 :: "'g library \<Rightarrow> 'g notebook \<Rightarrow> pyerr + 'g notebook" where
  "cell7 lib st =
     (case cell7_aipw lib (nb_df st) of
        Inl e \<Rightarrow> Inl e
      | Inr aipw \<Rightarrow> Inr (st\<lparr>nb_rd := Some (risk_difference aipw)\<rparr>))"

definition cell8_aipw :: "'g library \<Rightarrow> row list \<Rightarrow> pyerr + estimate" where
  "cell8_aipw lib dfb =
     AIPSW lib dfb ''A'' ''Y'' ''S'' True None cell8_weight_model cell8_outcome_model"

definition cell8 ::
  "'g library \<Rightarrow> 'g notebook \<Rightarrow> pyerr + ('g notebook \<times> (npfloat \<times> npfloat))" where
  "cell8 lib st = bootstrap_cell (loop_body lib (cell8_aipw lib)) 200 st"

subsection \<open>Observational study: cells 10 to 15\<close>

text \<open>
  Cell 10, and word for word step 4 of the loops of cells 12 and 15 (there on \<^verbatim>\<open>dfb\<close>,
  with \<^verbatim>\<open>dfse\<close> for \<^verbatim>\<open>dfs\<close>):
  \<^verbatim>\<open>
  dfs = df.loc[df['S'] == 1].copy()
  ipt = IPTW(dfs, treatment='A', outcome='Y')
  ipt.treatment_model('L + W + W_sq', print_results=False)
  dfs['iptw'] = ipt.iptw
  df = pd.concat([dfs, df.loc[df['S'] == 0]], ignore_index=True, sort=False)
  \<close>
\<close>

definition iptw_model :: string where
  "iptw_model = ''L + W + W_sq''"

definition iptw_step :: "'g library \<Rightarrow> row list \<Rightarrow> pyerr + row list" where
  "iptw_step lib df =
     (let dfs = df_loc_S df 1
      in case IPTW lib dfs ''A'' ''Y'' iptw_model of
           Inl e \<Rightarrow> Inl e
         | Inr w \<Rightarrow> Inr (pd_concat [set_iptw dfs w, df_loc_S df 0] True))"

definition cell10 :: "'g library \<Rightarrow> 'g notebook \<Rightarrow> pyerr + 'g notebook" where
  "cell10 lib st =
     (case iptw_step lib (nb_df st) of
        Inl e \<Rightarrow> Inl e
      | Inr df' \<Rightarrow> Inr (st\<lparr>nb_df := df'\<rparr>))"

definition cell11_model :: string where
  "cell11_model = ''L + W + W_sq + L:W + L:W_sq''"

definition cell12_model :: string where
  "cell12_model = ''L + W + L:W''"

definition cell13_model :: string where
  "cell13_model = ''A + L + W + W_sq + A:L''"

definition cell14_weight_model :: string where
  "cell14_weight_model = ''L + W + W_sq + L:W + L:W_sq''"

definition cell14_outcome_model :: string where
  "cell14_outcome_model = ''A + L + W + W_sq + A:L''"

definition cell15_weight_model :: string where
  "cell15_weight_model = ''L + W + W_sq + L:W + L:W_sq''"

definition cell15_outcome_model :: string where
  "cell15_outcome_model = ''A + L + W + W_sq + A:L''"

text \<open>Cell 11: \<^verbatim>\<open>IPSW(..., weights='iptw')\<close>; the cell ends with \<^verbatim>\<open>rd = ipsw.risk_difference\<close>.\<close>

definition cell11_ipsw :: "'g library \<Rightarrow> row list \<Rightarrow> pyerr + estimate" where
  "cell11_ipsw lib df = IPSW lib df ''A'' ''Y'' ''S'' True (Some ''iptw'') cell11_model"

definition cell11 :: "'g library \<Rightarrow> 'g notebook \<Rightarrow> pyerr + 'g notebook" where
  "cell11 lib st =
     (case cell11_ipsw lib (nb_df st) of
        Inl e \<Rightarrow> Inl e
      | Inr ipsw \<Rightarrow> Inr (st\<lparr>nb_rd := Some (risk_difference ipsw)\<rparr>))"

text \<open>Cell 12: step 4 recomputes the treatment weights, step 5 fits \<^verbatim>\<open>IPSW\<close>.\<close>

definition cell12_ipsw :: "'g library \<Rightarrow> row list \<Rightarrow> pyerr + estimate" where
  "cell12_ipsw lib dfb = IPSW lib dfb ''A'' ''Y'' ''S'' True (Some ''iptw'') cell12_model"

definition cell12_fit :: "'g library \<Rightarrow> row list \<Rightarrow> pyerr + estimate" where
  "cell12_fit lib dfb =
     (case iptw_step lib dfb of
        Inl e \<Rightarrow> Inl e
      | Inr dfb' \<Rightarrow> cell12_ipsw lib dfb')"

definition cell12 ::
  "'g library \<Rightarrow> 'g notebook \<Rightarrow> pyerr + ('g notebook \<times> (npfloat \<times> npfloat))" where
  "cell12 lib st = bootstrap_cell (loop_body lib (cell12_fit lib)) 200 st"

text \<open>Cell 13 fits and prints \<^verbatim>\<open>GTransportFormula\<close>; it assigns nothing to \<^verbatim>\<open>rd\<close>.\<close>

definition cell13_gtf :: "'g library \<Rightarrow> row list \<Rightarrow> pyerr + estimate" where
  "cell13_gtf lib df = GTransportFormula lib df ''A'' ''Y'' ''S'' True None cell13_model"

definition cell13 :: "'g library \<Rightarrow> 'g notebook \<Rightarrow> pyerr + 'g notebook" where
  "cell13 lib st =
     (case cell13_gtf lib (nb_df st) of
        Inl e \<Rightarrow> Inl e
      | Inr gtf \<Rightarrow> Inr st)"

text \<open>
  Cell 14 fits and prints \<^verbatim>\<open>AIPSW(..., weights='iptw')\<close>; it ends with
  \<^verbatim>\<open>aipw.summary()\<close> and assigns nothing to \<^verbatim>\<open>rd\<close>.
\<close>

definition cell14_aipw :: "'g library \<Rightarrow> row list \<Rightarrow> pyerr + estimate" where
  "cell14_aipw lib df =
     AIPSW lib df ''A'' ''Y'' ''S'' True (Some ''iptw'') cell14_weight_model cell14_outcome_model"

definition cell14 :: "'g library \<Rightarrow> 'g notebook \<Rightarrow> pyerr + 'g notebook" where
  "cell14 lib st =
     (case cell14_aipw lib (nb_df st) of
        Inl e \<Rightarrow> Inl e
      | Inr aipw \<Rightarrow> Inr st)"

text \<open>Cell 15: the loop of cell 12 with \<^verbatim>\<open>AIPSW\<close> in step 5.\<close>

definition cell15_aipw :: "'g library \<Rightarrow> row list \<Rightarrow> pyerr + estimate" where
  "cell15_aipw lib dfb =
     AIPSW lib dfb ''A'' ''Y'' ''S'' True (Some ''iptw'') cell15_weight_model cell15_outcome_model"

definition cell15_fit :: "'g library \<Rightarrow> row list \<Rightarrow> pyerr + estimate" where
  "cell15_fit lib dfb =
     (case iptw_step lib dfb of
        Inl e \<Rightarrow> Inl e
      | Inr dfb' \<Rightarrow> cell15_aipw lib dfb')"

definition cell15 ::
  "'g library \<Rightarrow> 'g notebook \<Rightarrow> pyerr + ('g notebook \<times> (npfloat \<times> npfloat))" where
  "cell15 lib st = bootstrap_cell (loop_body lib (cell15_fit lib)) 200 st"

subsection \<open>Running the cells in order\<close>

definition then_cell :: "pyerr + 'a \<Rightarrow> ('a \<Rightarrow> pyerr + 'b) \<Rightarrow> pyerr + 'b" where
  "then_cell m f = (case m of Inl e \<Rightarrow> Inl e | Inr x \<Rightarrow> f x)"

text \<open>The randomized part, cells 1 and 3 to 8, with the limits printed by cells 4, 6 and 8.\<close>

definition randomized ::
  "'g library \<Rightarrow> 'g notebook
     \<Rightarrow> pyerr + ('g notebook \<times> (npfloat \<times> npfloat) \<times> (npfloat \<times> npfloat) \<times> (npfloat \<times> npfloat))" where
  "randomized lib st =
     then_cell (cell1 lib st) (\<lambda>s1.
     then_cell (cell3 lib s1) (\<lambda>s3.
     then_cell (cell4 lib s3) (\<lambda>(s4, ci4).
     then_cell (cell5 lib s4) (\<lambda>s5.
     then_cell (cell6 lib s5) (\<lambda>(s6, ci6).
     then_cell (cell7 lib s6) (\<lambda>s7.
     then_cell (cell8 lib s7) (\<lambda>(s8, ci8).
     Inr (s8, ci4, ci6, ci8))))))))"

text \<open>The observational part, cells 9 to 15, with the limits printed by cells 12 and 15.\<close>

definition observational ::
  "'g library \<Rightarrow> 'g notebook
     \<Rightarrow> pyerr + ('g notebook \<times> (npfloat \<times> npfloat) \<times> (npfloat \<times> npfloat))" where
  "observational lib st =
     then_cell (cell9 lib st) (\<lambda>s9.
     then_cell (cell10 lib s9) (\<lambda>s10.
     then_cell (cell11 lib s10) (\<lambda>s11.
     then_cell (cell12 lib s11) (\<lambda>(s12, ci12).
     then_cell (cell13 lib s12) (\<lambda>s13.
     then_cell (cell14 lib s13) (\<lambda>s14.
     then_cell (cell15 lib s14) (\<lambda>(s15, ci15).
     Inr (s15, ci12, ci15))))))))"

section \<open>Vocabulary for the statements\<close>

text \<open>The number behind a finite value (zero for not-a-number, which the lemmas exclude).\<close>

fun fin_val :: "npfloat \<Rightarrow> real" where
  "fin_val (Fin r) = r"
| "fin_val NaN = 0"

text \<open>
  The terms of a model formula as the notebook writes it: the pieces between the plus
  signs, blanks dropped.
\<close>

fun formula_terms_from :: "string \<Rightarrow> string \<Rightarrow> string list" where
  "formula_terms_from acc [] = [rev acc]"
| "formula_terms_from acc (c # cs) =
     (if c = CHR ''+'' then rev acc # formula_terms_from [] cs
      else if c = CHR '' '' then formula_terms_from acc cs
      else formula_terms_from (c # acc) cs)"

definition formula_terms :: "string \<Rightarrow> string list" where
  "formula_terms s = formula_terms_from [] s"

text \<open>A row with the \<^verbatim>\<open>iptw\<close> entry blanked, to compare rows up to that column.\<close>

definition drop_iptw :: "row \<Rightarrow> row" where
  "drop_iptw r = r\<lparr>col_iptw := None\<rparr>"

text \<open>A row with its label blanked, to compare rows up to their place in the index.\<close>

definition unlabel :: "row \<Rightarrow> row" where
  "unlabel r = r\<lparr>row_label := 0\<rparr>"

text \<open>The columns of a row as they were loaded: label and \<^verbatim>\<open>iptw\<close> entry blanked.\<close>

definition row_data :: "row \<Rightarrow> row" where
  "row_data r = r\<lparr>row_label := 0, col_iptw := None\<rparr>"

section \<open>Stand-in libraries for the worked examples\<close>

text \<open>
  Four records, two of the trial (\<open>S = 1\<close>, one treated and one untreated) and two of the
  target population (outcome and treatment missing).
\<close>

definition demo_rows :: "row list" where
  "demo_rows =
     [\<lparr>row_label = 0, col_id = 1, col_Y = Fin 1, col_A = Fin 1, col_S = 1, col_L = 0, col_W = Fin 2,
        col_W_sq = NaN, col_iptw = None\<rparr>,
      \<lparr>row_label = 1, col_id = 2, col_Y = Fin 0, col_A = Fin 0, col_S = 1, col_L = 1, col_W = Fin 3,
        col_W_sq = NaN, col_iptw = None\<rparr>,
      \<lparr>row_label = 2, col_id = 3, col_Y = NaN, col_A = NaN, col_S = 0, col_L = 1, col_W = Fin 1,
        col_W_sq = NaN, col_iptw = None\<rparr>,
      \<lparr>row_label = 3, col_id = 4, col_Y = NaN, col_A = NaN, col_S = 0, col_L = 0, col_W = Fin 4,
        col_W_sq = NaN, col_iptw = None\<rparr>]"

text \<open>
  A stand-in estimator: the difference and the ratio of the mean outcomes of the treated
  and the untreated trial records. It is not the estimator of the package; it gives the
  examples something to compute that depends on the resample.
\<close>

definition crude_estimate :: "row list \<Rightarrow> estimate" where
  "crude_estimate df =
     (let s = df_loc_S df 1;
          r1 = np_mean (map col_Y (filter (\<lambda>r. col_A r = Fin 1) s));
          r0 = np_mean (map col_Y (filter (\<lambda>r. col_A r = Fin 0) s))
      in \<lparr>risk_difference = fsub r1 r0, risk_ratio = fdiv r1 r0\<rparr>)"

text \<open>
  \<open>demo_lib\<close>: the crude estimator for every estimator; the treatment weight 2 for a
  treated record and 4 for any other; a generator whose state is a counter \<open>g\<close>. Drawing
  with replacement, the \<open>k\<close>-th position is \<open>(g + 1 + k * (g + 1)) mod a\<close>: from state 0
  two rows are drawn in the order 1, 0, from state 1 the row 0 is drawn twice. Drawing
  without replacement gives the positions in order.
\<close>

definition demo_lib :: "nat library" where
  "demo_lib =
     \<lparr>load_generalize_data = (\<lambda>confounding. demo_rows),
      IPSW = (\<lambda>df exposure outcome selection generalize weights model. Inr (crude_estimate df)),
      GTransportFormula =
        (\<lambda>df exposure outcome selection generalize weights model. Inr (crude_estimate df)),
      AIPSW =
        (\<lambda>df exposure outcome selection generalize weights wmodel omodel.
           Inr (crude_estimate df)),
      IPTW =
        (\<lambda>df treatment outcome model.
           Inr (map (\<lambda>r. if col_A r = Fin 1 then Fin 2 else Fin 4) df)),
      choice =
        (\<lambda>g a n replace.
           (if replace then map (\<lambda>k. (Suc g + k * Suc g) mod a) [0..<n] else [0..<n], Suc g))\<rparr>"

text \<open>
  \<open>replay_lib\<close>: every estimator returns the numbers the notebook printed for it in the
  observational part (cell 11: 0.0506 and 1.1572; cell 13: 0.0419 and 1.1353; cell 14:
  0.0426 and 1.1369), on any data; the treatment weights are all one; the generator has
  a single state and draws every position once, in order.
\<close>

definition replay_lib :: "unit library" where
  "replay_lib =
     \<lparr>load_generalize_data = (\<lambda>confounding. demo_rows),
      IPSW =
        (\<lambda>df exposure outcome selection generalize weights model.
           Inr \<lparr>risk_difference = Fin 0.0506, risk_ratio = Fin 1.1572\<rparr>),
      GTransportFormula =
        (\<lambda>df exposure outcome selection generalize weights model.
           Inr \<lparr>risk_difference = Fin 0.0419, risk_ratio = Fin 1.1353\<rparr>),
      AIPSW =
        (\<lambda>df exposure outcome selection generalize weights wmodel omodel.
           Inr \<lparr>risk_difference = Fin 0.0426, risk_ratio = Fin 1.1369\<rparr>),
      IPTW = (\<lambda>df treatment outcome model. Inr (map (\<lambda>r. Fin 1) df)),
      choice = (\<lambda>g a n replace. ([0..<n], ()))\<rparr>"

text \<open>
  The four records after cells 9 and 10 under \<open>replay_lib\<close>: \<^verbatim>\<open>W_sq\<close> is filled in,
  the trial records carry the treatment weight one and the target records a missing
  weight.
\<close>

definition demo_rows_weighted :: "row list" where
  "demo_rows_weighted =
     [\<lparr>row_label = 0, col_id = 1, col_Y = Fin 1, col_A = Fin 1, col_S = 1, col_L = 0, col_W = Fin 2,
        col_W_sq = Fin 4, col_iptw = Some (Fin 1)\<rparr>,
      \<lparr>row_label = 1, col_id = 2, col_Y = Fin 0, col_A = Fin 0, col_S = 1, col_L = 1, col_W = Fin 3,
        col_W_sq = Fin 9, col_iptw = Some (Fin 1)\<rparr>,
      \<lparr>row_label = 2, col_id = 3, col_Y = NaN, col_A = NaN, col_S = 0, col_L = 1, col_W = Fin 1,
        col_W_sq = Fin 1, col_iptw = Some NaN\<rparr>,
      \<lparr>row_label = 3, col_id = 4, col_Y = NaN, col_A = NaN, col_S = 0, col_L = 0, col_W = Fin 4,
        col_W_sq = Fin 16, col_iptw = Some NaN\<rparr>]"

text \<open>
  The same four records after cells 9 and 10 under \<open>demo_lib\<close>: the treated trial record
  carries the weight 2, the untreated one the weight 4.
\<close>

definition demo_rows_iptw :: "row list" where
  "demo_rows_iptw =
     [\<lparr>row_label = 0, col_id = 1, col_Y = Fin 1, col_A = Fin 1, col_S = 1, col_L = 0,
        col_W = Fin 2, col_W_sq = Fin 4, col_iptw = Some (Fin 2)\<rparr>,
      \<lparr>row_label = 1, col_id = 2, col_Y = Fin 0, col_A = Fin 0, col_S = 1, col_L = 1,
        col_W = Fin 3, col_W_sq = Fin 9, col_iptw = Some (Fin 4)\<rparr>,
      \<lparr>row_label = 2, col_id = 3, col_Y = NaN, col_A = NaN, col_S = 0, col_L = 1,
        col_W = Fin 1, col_W_sq = Fin 1, col_iptw = Some NaN\<rparr>,
      \<lparr>row_label = 3, col_id = 4, col_Y = NaN, col_A = NaN, col_S = 0, col_L = 0,
        col_W = Fin 4, col_W_sq = Fin 16, col_iptw = Some NaN\<rparr>]"



text \<open>The notebook before its first cell: no data, \<^verbatim>\<open>rd\<close> unbound.\<close>

definition fresh_notebook :: "'g \<Rightarrow> 'g notebook" where
  "fresh_notebook g = \<lparr>nb_df = [], nb_rd = None, nb_rng = g\<rparr>"

section \<open>The same arithmetic with rounding\<close>


text \<open>
  The operations with the rounding \<open>rnd\<close> applied to every result. With \<open>rnd = d64\<close>
  they are the operations of the machine, with the identity for \<open>rnd\<close> they are the
  exact ones of the first section.
\<close>

fun radd :: "(real \<Rightarrow> real) \<Rightarrow> npfloat \<Rightarrow> npfloat \<Rightarrow> npfloat" where
  "radd rnd (Fin a) (Fin b) = Fin (rnd (a + b))"
| "radd rnd _ _ = NaN"

fun rsub :: "(real \<Rightarrow> real) \<Rightarrow> npfloat \<Rightarrow> npfloat \<Rightarrow> npfloat" where
  "rsub rnd (Fin a) (Fin b) = Fin (rnd (a - b))"
| "rsub rnd _ _ = NaN"

fun rmul :: "(real \<Rightarrow> real) \<Rightarrow> npfloat \<Rightarrow> npfloat \<Rightarrow> npfloat" where
  "rmul rnd (Fin a) (Fin b) = Fin (rnd (a * b))"
| "rmul rnd _ _ = NaN"

fun rdiv :: "(real \<Rightarrow> real) \<Rightarrow> npfloat \<Rightarrow> npfloat \<Rightarrow> npfloat" where
  "rdiv rnd (Fin a) (Fin b) = (if b = 0 then NaN else Fin (rnd (a / b)))"
| "rdiv rnd _ _ = NaN"

fun rsqrt :: "(real \<Rightarrow> real) \<Rightarrow> npfloat \<Rightarrow> npfloat" where
  "rsqrt rnd (Fin a) = (if a < 0 then NaN else Fin (rnd (sqrt a)))"
| "rsqrt rnd NaN = NaN"

text \<open>
  The order in which numpy adds the entries of an array (its pairwise summation): fewer
  than eight entries are added one after the other, starting from zero; up to 128
  entries are added into eight running sums, entry \<open>i\<close> into sum \<open>i mod 8\<close>, the eight
  sums are then added in pairs and the entries left over beyond the last full block of
  eight are added at the end; a longer array is cut in two, the first part a multiple of
  eight long, and the sums of the parts are added.
\<close>

function acc8 ::
  "(npfloat \<Rightarrow> npfloat \<Rightarrow> npfloat) \<Rightarrow> npfloat list \<Rightarrow> npfloat list \<Rightarrow> npfloat list" where
  "acc8 add r xs =
     (if length xs < 8 then r
      else acc8 add (map (\<lambda>(s, x). add s x) (zip r (take 8 xs))) (drop 8 xs))"
  by pat_completeness auto
termination
  by (relation "measure (\<lambda>(add, r, xs). length xs)") auto

function pairwise_sum :: "(npfloat \<Rightarrow> npfloat \<Rightarrow> npfloat) \<Rightarrow> npfloat list \<Rightarrow> npfloat" where
  "pairwise_sum add a =
     (let n = length a
      in if n < 8 then foldl add (Fin 0) a
         else if n \<le> 128 then
           (let k = n - n mod 8;
                r = acc8 add (take 8 a) (take (k - 8) (drop 8 a));
                res = add (add (add (r ! 0) (r ! 1)) (add (r ! 2) (r ! 3)))
                          (add (add (r ! 4) (r ! 5)) (add (r ! 6) (r ! 7)))
            in foldl add res (drop k a))
         else
           (let n2 = n div 2 - (n div 2) mod 8
            in add (pairwise_sum add (take n2 a)) (pairwise_sum add (drop n2 a))))"
  by pat_completeness auto
termination
  by (relation "measure (\<lambda>(add, a). length a)") auto

declare acc8.simps [simp del] pairwise_sum.simps [simp del]







section \<open>The standard deviation of the replicates\<close>

text \<open>
  \<open>np_sum\<close> is not-a-number as soon as one value is, and the sum of the numbers
  otherwise.
\<close>

lemma foldl_fadd_eq:
  "foldl fadd a xs =
     (if a = NaN \<or> NaN \<in> set xs then NaN else Fin (fin_val a + sum_list (map fin_val xs)))"
proof (induction xs arbitrary: a)
  case Nil
  then show ?case by (cases a) simp_all
next
  case (Cons x xs)
  show ?case
    by (cases a; cases x) (simp_all add: Cons.IH add.assoc)
qed

lemma np_sum_eq:
  "np_sum xs = (if NaN \<in> set xs then NaN else Fin (sum_list (map fin_val xs)))"
  by (simp add: np_sum_def foldl_fadd_eq)




lemma np_mean_NaN: "NaN \<in> set xs \<Longrightarrow> np_mean xs = NaN"
  by (simp add: np_mean_def np_sum_eq)

lemma np_std_NaN: "NaN \<in> set xs \<Longrightarrow> np_std xs k = NaN"
proof -
  assume h: "NaN \<in> set xs"
  then have "np_mean xs = NaN" by (rule np_mean_NaN)
  moreover have "xs \<noteq> []" using h by auto
  ultimately have "NaN \<in> set (map (\<lambda>x. fmul (fsub x (np_mean xs)) (fsub x (np_mean xs))) xs)"
    by (cases xs) simp_all
  then show ?thesis by (simp add: np_std_def Let_def np_sum_eq)
qed

lemma np_mean_Fin:
  "NaN \<notin> set xs \<Longrightarrow> xs \<noteq> [] \<Longrightarrow> np_mean xs = Fin (sum_list (map fin_val xs) / real (length xs))"
  by (simp add: np_mean_def np_sum_eq)

lemma fin_val_sq:
  "x \<noteq> NaN \<Longrightarrow> fmul (fsub x (Fin m)) (fsub x (Fin m)) = Fin ((fin_val x - m)\<^sup>2)"
  by (cases x) (simp_all add: power2_eq_square)

lemma np_std_Fin:
  assumes "NaN \<notin> set xs" and "2 \<le> length xs"
  shows "np_std xs 1 =
     Fin (sqrt ((\<Sum>x\<leftarrow>xs. (fin_val x - sum_list (map fin_val xs) / real (length xs))\<^sup>2)
                / (real (length xs) - 1)))"
proof -
  let ?m = "sum_list (map fin_val xs) / real (length xs)"
  have ne: "xs \<noteq> []" using assms(2) by auto
  have m: "np_mean xs = Fin ?m" using assms(1) ne by (rule np_mean_Fin)
  have sq: "map (\<lambda>x. fmul (fsub x (Fin ?m)) (fsub x (Fin ?m))) xs
          = map (\<lambda>x. Fin ((fin_val x - ?m)\<^sup>2)) xs"
    using assms(1) by (intro map_cong refl fin_val_sq) auto
  have s: "np_sum (map (\<lambda>x. Fin ((fin_val x - ?m)\<^sup>2)) xs) = Fin (\<Sum>x\<leftarrow>xs. (fin_val x - ?m)\<^sup>2)"
    by (simp add: np_sum_eq comp_def image_iff)
  have d: "real (length xs - 1) = real (length xs) - 1" using assms(2) by (simp add: of_nat_diff)
  have nz: "real (length xs) - 1 \<noteq> 0" using assms(2) by simp
  have nn: "0 \<le> (\<Sum>x\<leftarrow>xs. (fin_val x - ?m)\<^sup>2) / (real (length xs) - 1)"
    using assms(2) by (intro divide_nonneg_nonneg sum_list_nonneg) auto
  show ?thesis
    unfolding np_std_def Let_def m sq s d using nz nn by simp
qed

lemma np_std_short: "length xs \<le> 1 \<Longrightarrow> np_std xs 1 = NaN"
proof (cases xs)
  case Nil
  then show ?thesis by (simp add: np_std_def np_mean_def np_sum_def)
next
  case (Cons a list)
  assume "length xs \<le> 1"
  then have "list = []" using Cons by simp
  then show ?thesis using Cons by (cases a) (simp_all add: np_std_def np_mean_def np_sum_def)
qed

section \<open>The bootstrap loop\<close>


lemma bootstrap_loop_length:
  "bootstrap_loop body B g acc = Inr (rds, g') \<Longrightarrow> length rds = length acc + B"
proof (induction B arbitrary: g acc)
  case 0
  then show ?case by simp
next
  case (Suc B)
  then show ?case by (auto split: sum.splits prod.splits)
qed

lemma bootstrap_loop_prefix:
  "bootstrap_loop body B g acc = Inr (rds, g') \<Longrightarrow> take (length acc) rds = acc"
proof (induction B arbitrary: g acc)
  case 0
  then show ?case by simp
next
  case (Suc B)
  from Suc.prems obtain r g1 where b: "body g = Inr (r, g1)"
    and l: "bootstrap_loop body B g1 (acc @ [r]) = Inr (rds, g')"
    by (auto split: sum.splits prod.splits)
  from Suc.IH[OF l] have "take (Suc (length acc)) rds = acc @ [r]" by simp
  then have "take (length acc) (take (Suc (length acc)) rds) = take (length acc) (acc @ [r])"
    by simp
  then show ?case by (simp add: min_def)
qed

lemma bootstrap_loop_steps:
  "bootstrap_loop body B g acc = Inr (rds, g') \<Longrightarrow>
     \<exists>gs. length gs = Suc B \<and> gs ! 0 = g \<and> gs ! B = g' \<and>
          (\<forall>i<B. body (gs ! i) = Inr (rds ! (length acc + i), gs ! Suc i))"
proof (induction B arbitrary: g acc)
  case 0
  then show ?case by (auto intro: exI[of _ "[g]"])
next
  case (Suc B)
  from Suc.prems obtain r g1 where b: "body g = Inr (r, g1)"
    and l: "bootstrap_loop body B g1 (acc @ [r]) = Inr (rds, g')"
    by (auto split: sum.splits prod.splits)
  from Suc.IH[OF l] obtain gs where gs: "length gs = Suc B" "gs ! 0 = g1" "gs ! B = g'"
    "\<forall>i<B. body (gs ! i) = Inr (rds ! (length (acc @ [r]) + i), gs ! Suc i)" by blast
  from bootstrap_loop_prefix[OF l] have "take (Suc (length acc)) rds = acc @ [r]" by simp
  moreover from bootstrap_loop_length[OF l] have "length acc < length rds" by simp
  ultimately have r: "rds ! length acc = r"
    by (metis lessI nth_append_length nth_take)
  have "\<forall>i<Suc B. body ((g # gs) ! i) = Inr (rds ! (length acc + i), (g # gs) ! Suc i)"
  proof (intro allI impI)
    fix i assume i: "i < Suc B"
    show "body ((g # gs) ! i) = Inr (rds ! (length acc + i), (g # gs) ! Suc i)"
    proof (cases i)
      case 0
      then show ?thesis using b r gs(2) by simp
    next
      case (Suc j)
      then have "j < B" using i by simp
      then show ?thesis using gs(4) Suc by simp
    qed
  qed
  then show ?case using gs by (intro exI[of _ "g # gs"]) simp
qed

lemma bootstrap_loop_total:
  assumes "\<And>g. \<exists>r g'. body g = Inr (r, g')"
  shows "\<exists>rds g'. bootstrap_loop body B g acc = Inr (rds, g')"
proof (induction B arbitrary: g acc)
  case 0
  then show ?case by simp
next
  case (Suc B)
  from assms[of g] obtain r g1 where "body g = Inr (r, g1)" by blast
  then show ?case using Suc.IH[of g1 "acc @ [r]"] by simp
qed

lemma bootstrap_loop_const:
  assumes "body g = Inr (r, g)"
  shows "bootstrap_loop body B g acc = Inr (acc @ replicate B r, g)"
proof (induction B arbitrary: acc)
  case 0
  then show ?case by simp
next
  case (Suc B)
  show ?case using assms by (simp add: Suc.IH replicate_app_Cons_same)
qed



lemma bootstrap_cell_Inr:
  assumes "bootstrap_cell (loop_body lib fit) B st = Inr (st', out)"
  shows "\<exists>rd_bs rd gs.
           length rd_bs = B \<and> nb_rd st = Some rd \<and> out = print_limits rd rd_bs \<and>
           st' = st\<lparr>nb_rng := gs ! B\<rparr> \<and>
           length gs = Suc B \<and> gs ! 0 = nb_rng st \<and>
           (\<forall>i<B. loop_body lib fit (df_loc_S (nb_df st) 1) (df_loc_S (nb_df st) 0) (gs ! i)
                     = Inr (rd_bs ! i, gs ! Suc i))"
proof -
  let ?body = "loop_body lib fit (df_loc_S (nb_df st) 1) (df_loc_S (nb_df st) 0)"
  from assms obtain rd_bs g' rd where
    l: "bootstrap_loop ?body B (nb_rng st) [] = Inr (rd_bs, g')" and
    rd: "nb_rd st = Some rd" and o: "out = print_limits rd rd_bs" and
    s: "st' = st\<lparr>nb_rng := g'\<rparr>"
    by (auto simp: bootstrap_cell_def Let_def split: sum.splits prod.splits option.splits)
  from bootstrap_loop_steps[OF l] obtain gs where
    gs: "length gs = Suc B" "gs ! 0 = nb_rng st" "gs ! B = g'"
        "\<forall>i<B. ?body (gs ! i) = Inr (rd_bs ! (length ([]::npfloat list) + i), gs ! Suc i)"
    by blast
  from bootstrap_loop_length[OF l] have "length rd_bs = B" by simp
  with rd o s gs show ?thesis by (intro exI[of _ rd_bs] exI[of _ rd] exI[of _ gs]) simp
qed

section \<open>Frames\<close>

lemma col_S_fill_iptw [simp]: "col_S (fill_iptw r) = col_S r"
  by (simp add: fill_iptw_def split: option.splits)

lemma row_label_fill_iptw [simp]: "row_label (fill_iptw r) = row_label r"
  by (simp add: fill_iptw_def split: option.splits)

lemma drop_iptw_fill_iptw [simp]: "drop_iptw (fill_iptw r) = drop_iptw r"
  by (simp add: fill_iptw_def drop_iptw_def split: option.splits)

lemma row_data_fill_iptw [simp]: "row_data (fill_iptw r) = row_data r"
  by (simp add: fill_iptw_def row_data_def split: option.splits)

lemma row_data_unlabel [simp]: "row_data (unlabel r) = row_data r"
  by (simp add: row_data_def unlabel_def)

lemma col_S_unlabel [simp]: "col_S (unlabel r) = col_S r"
  by (simp add: unlabel_def)

lemma col_iptw_unlabel [simp]: "col_iptw (unlabel r) = col_iptw r"
  by (simp add: unlabel_def)

lemma fill_iptw_Some: "col_iptw r = Some x \<Longrightarrow> fill_iptw r = r"
  by (simp add: fill_iptw_def)

lemma df_loc_S_map_fill: "df_loc_S (map fill_iptw df) v = map fill_iptw (df_loc_S df v)"
  by (simp add: df_loc_S_def filter_map comp_def)

lemma df_loc_S_append: "df_loc_S (a @ b) v = df_loc_S a v @ df_loc_S b v"
  by (simp add: df_loc_S_def)

lemma df_loc_S_idem: "df_loc_S (df_loc_S df v) v = df_loc_S df v"
  by (simp add: df_loc_S_def)

lemma df_loc_S_other: "v \<noteq> u \<Longrightarrow> df_loc_S (df_loc_S df v) u = []"
  by (auto simp: df_loc_S_def filter_empty_conv)

lemma df_loc_S_all: "\<forall>r\<in>set df. col_S r = v \<Longrightarrow> df_loc_S df v = df"
  by (simp add: df_loc_S_def)

lemma df_loc_S_none: "\<forall>r\<in>set df. col_S r \<noteq> v \<Longrightarrow> df_loc_S df v = []"
  by (simp add: df_loc_S_def filter_empty_conv)

text \<open>Selecting by \<open>S\<close> does not look at the labels.\<close>

lemma df_loc_S_unlabel:
  "map unlabel a = map unlabel b \<Longrightarrow> map unlabel (df_loc_S a v) = map unlabel (df_loc_S b v)"
proof (induction a arbitrary: b)
  case Nil
  then show ?case by (simp add: df_loc_S_def)
next
  case (Cons x a)
  then obtain y b' where b: "b = y # b'" by (cases b) auto
  with Cons.prems have u: "unlabel x = unlabel y" and r: "map unlabel a = map unlabel b'"
    by simp_all
  from u have "col_S x = col_S y" by (metis col_S_unlabel)
  with Cons.IH[OF r] u show ?case by (simp add: b df_loc_S_def)
qed

lemma range_index_length [simp]: "length (range_index rows) = length rows"
  by (simp add: range_index_def)

lemma range_index_nth:
  "i < length rows \<Longrightarrow> range_index rows ! i = (rows ! i)\<lparr>row_label := i\<rparr>"
  by (simp add: range_index_def)

lemma range_index_unlabel: "map unlabel (range_index rows) = map unlabel rows"
  by (rule nth_equalityI) (simp_all add: range_index_nth unlabel_def)

lemma range_index_labels: "map row_label (range_index rows) = [0..<length rows]"
  by (rule nth_equalityI) (simp_all add: range_index_nth)

text \<open>Stacking two frames.\<close>

lemma pd_concat_keep:
  "pd_concat [a, b] False =
     (if list_ex (\<lambda>r. col_iptw r \<noteq> None) (a @ b) then map fill_iptw (a @ b) else a @ b)"
  by (simp add: pd_concat_def Let_def)

lemma pd_concat_two:
  "pd_concat [a, b] False = a @ b \<or> pd_concat [a, b] False = map fill_iptw (a @ b)"
  by (simp add: pd_concat_keep)

lemma pd_concat_fresh: "pd_concat [a, b] True = range_index (pd_concat [a, b] False)"
  by (simp add: pd_concat_def Let_def)


lemma pd_concat_labels: "map row_label (pd_concat [a, b] False) = map row_label (a @ b)"
  using pd_concat_two[of a b] by (auto simp: comp_def)

lemma pd_concat_loc:
  "map drop_iptw (df_loc_S (pd_concat [a, b] False) v)
     = map drop_iptw (df_loc_S a v @ df_loc_S b v)"
  using pd_concat_two[of a b]
  by (auto simp: df_loc_S_map_fill df_loc_S_append comp_def)

text \<open>Storing the weights: by label.\<close>

lemma set_iptw_length [simp]: "length (set_iptw dfs w) = length dfs"
  by (simp add: set_iptw_def)

lemma set_iptw_col_S [simp]: "map col_S (set_iptw dfs w) = map col_S dfs"
  by (simp add: set_iptw_def comp_def)

lemma set_iptw_labels [simp]: "map row_label (set_iptw dfs w) = map row_label dfs"
  by (simp add: set_iptw_def comp_def)

lemma set_iptw_row_data [simp]: "map row_data (set_iptw dfs w) = map row_data dfs"
  by (simp add: set_iptw_def comp_def row_data_def)

lemma set_iptw_weights:
  "map col_iptw (set_iptw dfs w)
     = map (\<lambda>r. Some (if row_label r < length w then w ! row_label r else NaN)) dfs"
  by (simp add: set_iptw_def comp_def)

text \<open>
  When the labels of the rows are their positions, storing by label is storing by
  position: every row receives its own weight.
\<close>

lemma set_iptw_positional:
  assumes "map row_label dfs = [0..<length dfs]" and "length w = length dfs"
  shows "map col_iptw (set_iptw dfs w) = map Some w"
proof (rule nth_equalityI)
  show "length (map col_iptw (set_iptw dfs w)) = length (map Some w)"
    using assms(2) by simp
next
  fix i assume "i < length (map col_iptw (set_iptw dfs w))"
  then have i: "i < length dfs" by simp
  then have "row_label (dfs ! i) = i"
    using assms(1) by (metis add_0 nth_map nth_upt)
  then show "map col_iptw (set_iptw dfs w) ! i = map Some w ! i"
    using i assms(2) by (simp add: set_iptw_def)
qed

lemma map_col_S_loc:
  assumes "map col_S a = map col_S b"
  shows "(\<forall>r\<in>set a. col_S r = v) \<longleftrightarrow> (\<forall>r\<in>set b. col_S r = v)"
proof -
  have "col_S ` set a = col_S ` set b" using assms by (metis set_map)
  then show ?thesis by (metis (no_types, lifting) image_iff)
qed

lemma iptw_step_Inr:
  assumes "iptw_step lib df = Inr df'"
  shows "\<exists>w. IPTW lib (df_loc_S df 1) ''A'' ''Y'' iptw_model = Inr w \<and>
           df' = pd_concat [set_iptw (df_loc_S df 1) w, df_loc_S df 0] True \<and>
           map row_label df' = [0..<length df'] \<and>
           map col_iptw (df_loc_S df' 1)
             = map (\<lambda>r. Some (if row_label r < length w then w ! row_label r else NaN))
                 (df_loc_S df 1) \<and>
           map row_data (df_loc_S df' 1) = map row_data (df_loc_S df 1) \<and>
           map row_data (df_loc_S df' 0) = map row_data (df_loc_S df 0)"
proof -
  let ?s = "df_loc_S df 1" and ?t = "df_loc_S df 0"
  from assms obtain w where
    w: "IPTW lib ?s ''A'' ''Y'' iptw_model = Inr w" and
    d: "df' = pd_concat [set_iptw ?s w, ?t] True"
    by (auto simp: iptw_step_def Let_def split: sum.splits)
  let ?s' = "set_iptw ?s w"
  let ?k = "pd_concat [?s', ?t] False"
  have d': "df' = range_index ?k" unfolding d by (rule pd_concat_fresh)
  have lab: "map row_label df' = [0..<length df']"
    unfolding d' by (simp add: range_index_labels)
  have "\<forall>r\<in>set ?s. col_S r = 1" by (simp add: df_loc_S_def)
  with map_col_S_loc[of ?s' ?s 1] have s1: "\<forall>r\<in>set ?s'. col_S r = 1" by simp
  then have ls1: "df_loc_S ?s' 1 = ?s'" by (rule df_loc_S_all)
  have ls0: "df_loc_S ?s' 0 = []" using s1 by (intro df_loc_S_none) simp
  have lt1: "df_loc_S ?t 1 = []" by (rule df_loc_S_other) simp
  have lt0: "df_loc_S ?t 0 = ?t" by (rule df_loc_S_idem)
  have some: "\<forall>r\<in>set ?s'. \<exists>x. col_iptw r = Some x"
    by (auto simp: set_iptw_def)
  then have fs: "map fill_iptw ?s' = ?s'"
    by (intro map_idI) (auto dest: fill_iptw_Some)
  have k1: "df_loc_S ?k 1 = ?s'"
    using pd_concat_two[of ?s' ?t]
    by (auto simp: df_loc_S_map_fill df_loc_S_append ls1 lt1 fs)
  have k0: "df_loc_S ?k 0 = ?t \<or> df_loc_S ?k 0 = map fill_iptw ?t"
    using pd_concat_two[of ?s' ?t]
    by (auto simp: df_loc_S_map_fill df_loc_S_append ls0 lt0)
  have u1: "map unlabel (df_loc_S df' 1) = map unlabel ?s'"
    unfolding d' using df_loc_S_unlabel[OF range_index_unlabel, of ?k 1] by (simp add: k1)
  have u0: "map unlabel (df_loc_S df' 0) = map unlabel (df_loc_S ?k 0)"
    unfolding d' using df_loc_S_unlabel[OF range_index_unlabel, of ?k 0] by simp
  from u1 have "map (col_iptw \<circ> unlabel) (df_loc_S df' 1) = map (col_iptw \<circ> unlabel) ?s'"
    by (metis map_map)
  then have a: "map col_iptw (df_loc_S df' 1)
      = map (\<lambda>r. Some (if row_label r < length w then w ! row_label r else NaN)) ?s"
    by (simp add: comp_def set_iptw_weights)
  from u1 have "map (row_data \<circ> unlabel) (df_loc_S df' 1) = map (row_data \<circ> unlabel) ?s'"
    by (metis map_map)
  then have b: "map row_data (df_loc_S df' 1) = map row_data ?s"
    by (simp add: comp_def)
  from u0 have "map (row_data \<circ> unlabel) (df_loc_S df' 0)
      = map (row_data \<circ> unlabel) (df_loc_S ?k 0)"
    by (metis map_map)
  then have c: "map row_data (df_loc_S df' 0) = map row_data ?t"
    using k0 by (auto simp: comp_def)
  from w d lab a b c show ?thesis by (intro exI[of _ w]) simp
qed

section \<open>Evaluating the stand-in libraries\<close>

lemma np_std_replicate:
  assumes "2 \<le> n"
  shows "np_std (replicate n (Fin c)) 1 = Fin 0"
proof -
  have nz: "real n \<noteq> 0" using assms by simp
  have m: "sum_list (map fin_val (replicate n (Fin c))) / real (length (replicate n (Fin c))) = c"
    using nz by (simp add: sum_list_replicate)
  have z: "(\<Sum>x\<leftarrow>replicate n (Fin c). (fin_val x - c)\<^sup>2) = 0"
    by (simp add: sum_list_replicate)
  have "NaN \<notin> set (replicate n (Fin c))" by simp
  moreover have "2 \<le> length (replicate n (Fin c))" using assms by simp
  ultimately have "np_std (replicate n (Fin c)) 1 =
     Fin (sqrt ((\<Sum>x\<leftarrow>replicate n (Fin c).
        (fin_val x - sum_list (map fin_val (replicate n (Fin c)))
                       / real (length (replicate n (Fin c))))\<^sup>2)
                / (real (length (replicate n (Fin c))) - 1)))"
    by (rule np_std_Fin)
  also have "\<dots> = Fin 0" unfolding m z by simp
  finally show ?thesis .
qed

lemma rint_50_6: "rint (253 / 5) = 51"
proof -
  have "\<lfloor>253 / 5 :: real\<rfloor> = 50" by simp
  then show ?thesis by (simp add: rint_def Let_def)
qed

lemma print_limits_replicate:
  assumes "2 \<le> n"
  shows "print_limits (Fin r) (replicate n (Fin c)) = (np_round (Fin r) 3, np_round (Fin r) 3)"
  unfolding print_limits_def conf_limits_def np_std_replicate[OF assms] by simp

lemma np_round_0506: "np_round (Fin 0.0506) 3 = Fin 0.051"
proof -
  have "(0.0506 :: real) * 10 ^ 3 = 253 / 5" by simp
  then show ?thesis by (simp only: np_round.simps rint_50_6) simp
qed

lemma replay_df_sample: "df_sample replay_lib g rows (length rows) = Inr (rows, ())"
  by (simp add: df_sample_def replay_lib_def list_all_iff map_nth)

lemma replay_resample_stack:
  "resample_stack replay_lib dfss dftp g = Inr (pd_concat [dfss, dftp] False, ())"
  by (simp add: resample_stack_def replay_df_sample)

lemma replay_loop_body:
  "fit (pd_concat [dfss, dftp] False) = Inr est \<Longrightarrow>
   loop_body replay_lib fit dfss dftp g = Inr (risk_difference est, ())"
  by (simp add: loop_body_def replay_resample_stack)

lemma replay_bootstrap_cell:
  assumes "fit (pd_concat [df_loc_S (nb_df st) 1, df_loc_S (nb_df st) 0] False) = Inr est"
    and "nb_rd st = Some rd"
  shows "bootstrap_cell (loop_body replay_lib fit) B st
           = Inr (st, print_limits rd (replicate B (risk_difference est)))"
proof -
  let ?body = "loop_body replay_lib fit (df_loc_S (nb_df st) 1) (df_loc_S (nb_df st) 0)"
  have "?body () = Inr (risk_difference est, ())"
    using assms(1) by (rule replay_loop_body)
  from bootstrap_loop_const[where body = ?body and g = "()" and B = B and acc = "[]", OF this]
  have "bootstrap_loop ?body B (nb_rng st) [] = Inr (replicate B (risk_difference est), ())"
    by simp
  then show ?thesis using assms(2) by (simp add: bootstrap_cell_def)
qed

lemma bootstrap_cell_state:
  assumes "bootstrap_cell body B st = Inr (st', out)"
  shows "nb_df st' = nb_df st \<and> nb_rd st' = nb_rd st"
  using assms
  by (auto simp: bootstrap_cell_def Let_def split: sum.splits prod.splits option.splits)

lemma then_cell_Inr: "then_cell m f = Inr y \<Longrightarrow> \<exists>x. m = Inr x \<and> f x = Inr y"
  by (cases m) (simp_all add: then_cell_def)

lemma observational_Inr:
  assumes "observational lib st = Inr (st', ci12, ci15)"
  shows "\<exists>df10 ipsw gtf aipw s12.
           iptw_step lib (add_W_sq (range_index (load_generalize_data lib True))) = Inr df10 \<and>
           cell11_ipsw lib df10 = Inr ipsw \<and>
           cell12 lib (st\<lparr>nb_df := df10, nb_rd := Some (risk_difference ipsw)\<rparr>) = Inr (s12, ci12) \<and>
           nb_df s12 = df10 \<and> nb_rd s12 = Some (risk_difference ipsw) \<and>
           cell13_gtf lib df10 = Inr gtf \<and>
           cell14_aipw lib df10 = Inr aipw \<and>
           cell15 lib s12 = Inr (st', ci15)"
proof -
  from then_cell_Inr[OF assms[unfolded observational_def]] obtain s9 where
    c9: "cell9 lib st = Inr s9" and
    r9: "then_cell (cell10 lib s9) (\<lambda>s10.
          then_cell (cell11 lib s10) (\<lambda>s11.
          then_cell (cell12 lib s11) (\<lambda>(s12, ci12).
          then_cell (cell13 lib s12) (\<lambda>s13.
          then_cell (cell14 lib s13) (\<lambda>s14.
          then_cell (cell15 lib s14) (\<lambda>(s15, ci15).
          Inr (s15, ci12, ci15))))))) = Inr (st', ci12, ci15)" by blast
  from then_cell_Inr[OF r9] obtain s10 where
    c10: "cell10 lib s9 = Inr s10" and
    r10: "then_cell (cell11 lib s10) (\<lambda>s11.
          then_cell (cell12 lib s11) (\<lambda>(s12, ci12).
          then_cell (cell13 lib s12) (\<lambda>s13.
          then_cell (cell14 lib s13) (\<lambda>s14.
          then_cell (cell15 lib s14) (\<lambda>(s15, ci15).
          Inr (s15, ci12, ci15)))))) = Inr (st', ci12, ci15)" by blast
  from then_cell_Inr[OF r10] obtain s11 where
    c11: "cell11 lib s10 = Inr s11" and
    r11: "then_cell (cell12 lib s11) (\<lambda>(s12, ci12).
          then_cell (cell13 lib s12) (\<lambda>s13.
          then_cell (cell14 lib s13) (\<lambda>s14.
          then_cell (cell15 lib s14) (\<lambda>(s15, ci15).
          Inr (s15, ci12, ci15))))) = Inr (st', ci12, ci15)" by blast
  from then_cell_Inr[OF r11] obtain p12 where
    c12': "cell12 lib s11 = Inr p12" and
    r12': "(\<lambda>(s12, ci12).
          then_cell (cell13 lib s12) (\<lambda>s13.
          then_cell (cell14 lib s13) (\<lambda>s14.
          then_cell (cell15 lib s14) (\<lambda>(s15, ci15).
          Inr (s15, ci12, ci15))))) p12 = Inr (st', ci12, ci15)" by blast
  obtain s12 c12v where p12: "p12 = (s12, c12v)" by (cases p12)
  from r12' p12 have
    r12: "then_cell (cell13 lib s12) (\<lambda>s13.
          then_cell (cell14 lib s13) (\<lambda>s14.
          then_cell (cell15 lib s14) (\<lambda>(s15, ci15).
          Inr (s15, c12v, ci15)))) = Inr (st', ci12, ci15)" by simp
  from then_cell_Inr[OF r12] obtain s13 where
    c13: "cell13 lib s12 = Inr s13" and
    r13: "then_cell (cell14 lib s13) (\<lambda>s14.
          then_cell (cell15 lib s14) (\<lambda>(s15, ci15).
          Inr (s15, c12v, ci15))) = Inr (st', ci12, ci15)" by blast
  from then_cell_Inr[OF r13] obtain s14 where
    c14: "cell14 lib s13 = Inr s14" and
    r14: "then_cell (cell15 lib s14) (\<lambda>(s15, ci15).
          Inr (s15, c12v, ci15)) = Inr (st', ci12, ci15)" by blast
  from then_cell_Inr[OF r14] obtain p15 where
    c15': "cell15 lib s14 = Inr p15" and
    r15: "(\<lambda>(s15, ci15). Inr (s15, c12v, ci15) :: pyerr + _) p15 = Inr (st', ci12, ci15)" by blast
  from r15 have p15: "p15 = (st', ci15)" and cv: "c12v = ci12" by (cases p15; simp)+
  from c9 have s9: "s9 = st\<lparr>nb_df := add_W_sq (range_index (load_generalize_data lib True))\<rparr>"
    by (simp add: cell9_def)
  from c10 s9 obtain df10 where
    i: "iptw_step lib (add_W_sq (range_index (load_generalize_data lib True))) = Inr df10" and
    s10: "s10 = s9\<lparr>nb_df := df10\<rparr>"
    by (auto simp: cell10_def split: sum.splits)
  from c11 s10 obtain ipsw where
    e11: "cell11_ipsw lib df10 = Inr ipsw" and
    s11: "s11 = s10\<lparr>nb_rd := Some (risk_difference ipsw)\<rparr>"
    by (auto simp: cell11_def split: sum.splits)
  have s11': "s11 = st\<lparr>nb_df := df10, nb_rd := Some (risk_difference ipsw)\<rparr>"
    by (simp add: s11 s10 s9)
  from c12' p12 cv have c12: "cell12 lib s11 = Inr (s12, ci12)" by simp
  from bootstrap_cell_state[OF c12[unfolded cell12_def]] s11'
  have d12: "nb_df s12 = df10" "nb_rd s12 = Some (risk_difference ipsw)" by simp_all
  from c13 d12 obtain gtf where e13: "cell13_gtf lib df10 = Inr gtf" and s13: "s13 = s12"
    by (auto simp: cell13_def split: sum.splits)
  from c14 s13 d12 obtain aipw where e14: "cell14_aipw lib df10 = Inr aipw" and s14: "s14 = s12"
    by (auto simp: cell14_def split: sum.splits)
  from c15' p15 s14 have c15: "cell15 lib s12 = Inr (st', ci15)" by simp
  from i e11 c12 d12 e13 e14 c15 s11' show ?thesis by blast
qed

lemma replay_iptw_step_demo:
  "iptw_step replay_lib (add_W_sq (range_index demo_rows)) = Inr demo_rows_weighted"
  by (simp add: iptw_step_def replay_lib_def add_W_sq_def demo_rows_def df_loc_S_def
        set_iptw_def pd_concat_def fill_iptw_def demo_rows_weighted_def iptw_model_def
        range_index_def upt_rec[of 0] upt_rec[of 1] upt_rec[of 2] upt_rec[of 3] upt_rec[of 4])

lemma replay_iptw_step_total: "\<exists>df'. iptw_step replay_lib df = Inr df'"
  by (simp add: iptw_step_def replay_lib_def Let_def)

lemma replay_cell12_fit:
  "cell12_fit replay_lib df = Inr \<lparr>risk_difference = Fin 0.0506, risk_ratio = Fin 1.1572\<rparr>"
proof -
  obtain df' where "iptw_step replay_lib df = Inr df'" using replay_iptw_step_total by blast
  then show ?thesis by (simp add: cell12_fit_def cell12_ipsw_def replay_lib_def)
qed

lemma replay_cell15_fit:
  "cell15_fit replay_lib df = Inr \<lparr>risk_difference = Fin 0.0426, risk_ratio = Fin 1.1369\<rparr>"
proof -
  obtain df' where "iptw_step replay_lib df = Inr df'" using replay_iptw_step_total by blast
  then show ?thesis by (simp add: cell15_fit_def cell15_aipw_def replay_lib_def)
qed

lemma replay_cell12:
  assumes "nb_rd s = Some rd"
  shows "cell12 replay_lib s = Inr (s, print_limits rd (replicate 200 (Fin 0.0506)))"
  using replay_bootstrap_cell[where fit = "cell12_fit replay_lib" and st = s and B = 200,
      OF replay_cell12_fit assms]
  by (simp add: cell12_def)

lemma replay_cell15:
  assumes "nb_rd s = Some rd"
  shows "cell15 replay_lib s = Inr (s, print_limits rd (replicate 200 (Fin 0.0426)))"
  using replay_bootstrap_cell[where fit = "cell15_fit replay_lib" and st = s and B = 200,
      OF replay_cell15_fit assms]
  by (simp add: cell15_def)

lemma replay_limits:
  "print_limits (Fin 0.0506) (replicate 200 (Fin c)) = (Fin 0.051, Fin 0.051)"
proof -
  have "print_limits (Fin 0.0506) (replicate 200 (Fin c))
          = (np_round (Fin 0.0506) 3, np_round (Fin 0.0506) 3)"
    by (rule print_limits_replicate) simp
  then show ?thesis by (simp only: np_round_0506)
qed

lemma rint_42_6: "rint (213 / 5) = 43"
proof -
  have "\<lfloor>213 / 5 :: real\<rfloor> = 42" by simp
  then show ?thesis by (simp add: rint_def Let_def)
qed

lemma np_round_0426: "np_round (Fin 0.0426) 3 = Fin 0.043"
proof -
  have "(0.0426 :: real) * 10 ^ 3 = 213 / 5" by simp
  then show ?thesis by (simp only: np_round.simps rint_42_6) simp
qed

lemma replay_observational:
  "observational replay_lib (fresh_notebook ())
     = Inr (\<lparr>nb_df = demo_rows_weighted, nb_rd = Some (Fin 0.0506), nb_rng = ()\<rparr>,
            (Fin 0.051, Fin 0.051), (Fin 0.051, Fin 0.051))"
proof -
  let ?s = "\<lparr>nb_df = demo_rows_weighted, nb_rd = Some (Fin 0.0506), nb_rng = ()\<rparr>"
  have c9: "cell9 replay_lib (fresh_notebook ())
              = Inr \<lparr>nb_df = add_W_sq (range_index demo_rows), nb_rd = None, nb_rng = ()\<rparr>"
    by (simp add: cell9_def fresh_notebook_def replay_lib_def)
  have c10: "cell10 replay_lib \<lparr>nb_df = add_W_sq (range_index demo_rows), nb_rd = None, nb_rng = ()\<rparr>
              = Inr \<lparr>nb_df = demo_rows_weighted, nb_rd = None, nb_rng = ()\<rparr>"
    by (simp add: cell10_def replay_iptw_step_demo)
  have c11: "cell11 replay_lib \<lparr>nb_df = demo_rows_weighted, nb_rd = None, nb_rng = ()\<rparr> = Inr ?s"
    by (simp add: cell11_def cell11_ipsw_def replay_lib_def)
  have c12: "cell12 replay_lib ?s = Inr (?s, (Fin 0.051, Fin 0.051))"
    using replay_cell12[of ?s "Fin 0.0506"] by (simp only: replay_limits) simp
  have c13: "cell13 replay_lib ?s = Inr ?s"
    by (simp add: cell13_def cell13_gtf_def replay_lib_def)
  have c14: "cell14 replay_lib ?s = Inr ?s"
    by (simp add: cell14_def cell14_aipw_def replay_lib_def)
  have c15: "cell15 replay_lib ?s = Inr (?s, (Fin 0.051, Fin 0.051))"
    using replay_cell15[of ?s "Fin 0.0506"] by (simp only: replay_limits) simp
  show ?thesis
    unfolding observational_def c9 then_cell_def sum.case c10 c11 c12 prod.case c13 c14 c15
    by (rule refl)
qed

lemma print_limits_NaN: "NaN \<in> set rd_bs \<Longrightarrow> print_limits rd rd_bs = (NaN, NaN)"
  by (cases rd) (simp_all add: print_limits_def conf_limits_def np_std_NaN)

lemma conf_limits_Fin:
  assumes "NaN \<notin> set rd_bs" and "2 \<le> length rd_bs"
    and "sd = sqrt ((\<Sum>x\<leftarrow>rd_bs. (fin_val x - sum_list (map fin_val rd_bs) / real (length rd_bs))\<^sup>2)
                / (real (length rd_bs) - 1))"
  shows "conf_limits (Fin rd) rd_bs = (Fin (rd - 1.96 * sd), Fin (rd + 1.96 * sd))"
  unfolding conf_limits_def np_std_Fin[OF assms(1,2)] assms(3) by simp

lemma bootstrap_cell_limits:
  assumes "bootstrap_cell body B st = Inr (st', out)"
  shows "\<exists>rd rd_bs. nb_rd st = Some rd \<and> length rd_bs = B \<and> out = print_limits rd rd_bs"
proof -
  from assms obtain rd_bs g' rd where
    l: "bootstrap_loop (body (df_loc_S (nb_df st) 1) (df_loc_S (nb_df st) 0)) B (nb_rng st) []
          = Inr (rd_bs, g')" and
    r: "nb_rd st = Some rd" "out = print_limits rd rd_bs"
    by (auto simp: bootstrap_cell_def Let_def split: sum.splits prod.splits option.splits)
  from bootstrap_loop_length[OF l] r show ?thesis by auto
qed

lemma cell3_then_cell4:
  assumes "cell3 lib st = Inr s" and "cell4 lib s = Inr (s', out)"
  shows "\<exists>ipsw rd_bs. cell3_ipsw lib (nb_df st) = Inr ipsw \<and> length rd_bs = 200 \<and>
           out = print_limits (risk_difference ipsw) rd_bs"
proof -
  from assms(1) obtain ipsw where
    e: "cell3_ipsw lib (nb_df st) = Inr ipsw" and s: "nb_rd s = Some (risk_difference ipsw)"
    by (auto simp: cell3_def split: sum.splits)
  from bootstrap_cell_limits[OF assms(2)[unfolded cell4_def]] s e show ?thesis by auto
qed

lemma cell5_then_cell6:
  assumes "cell5 lib st = Inr s" and "cell6 lib s = Inr (s', out)"
  shows "\<exists>gtf rd_bs. cell5_gtf lib (nb_df st) = Inr gtf \<and> length rd_bs = 200 \<and>
           out = print_limits (risk_difference gtf) rd_bs"
proof -
  from assms(1) obtain gtf where
    e: "cell5_gtf lib (nb_df st) = Inr gtf" and s: "nb_rd s = Some (risk_difference gtf)"
    by (auto simp: cell5_def split: sum.splits)
  from bootstrap_cell_limits[OF assms(2)[unfolded cell6_def]] s e show ?thesis by auto
qed

lemma cell7_then_cell8:
  assumes "cell7 lib st = Inr s" and "cell8 lib s = Inr (s', out)"
  shows "\<exists>aipw rd_bs. cell7_aipw lib (nb_df st) = Inr aipw \<and> length rd_bs = 200 \<and>
           out = print_limits (risk_difference aipw) rd_bs"
proof -
  from assms(1) obtain aipw where
    e: "cell7_aipw lib (nb_df st) = Inr aipw" and s: "nb_rd s = Some (risk_difference aipw)"
    by (auto simp: cell7_def split: sum.splits)
  from bootstrap_cell_limits[OF assms(2)[unfolded cell8_def]] s e show ?thesis by auto
qed

lemma cell11_then_cell12:
  assumes "cell11 lib st = Inr s" and "cell12 lib s = Inr (s', out)"
  shows "\<exists>ipsw rd_bs. cell11_ipsw lib (nb_df st) = Inr ipsw \<and> length rd_bs = 200 \<and>
           out = print_limits (risk_difference ipsw) rd_bs"
proof -
  from assms(1) obtain ipsw where
    e: "cell11_ipsw lib (nb_df st) = Inr ipsw" and s: "nb_rd s = Some (risk_difference ipsw)"
    by (auto simp: cell11_def split: sum.splits)
  from bootstrap_cell_limits[OF assms(2)[unfolded cell12_def]] s e show ?thesis by auto
qed

text \<open>
  Cell 14 leaves \<^verbatim>\<open>rd\<close> as it finds it, so the limits of cell 15 are taken around the
  value bound before cell 14 ran.
\<close>

lemma cell14_then_cell15:
  assumes "cell14 lib st = Inr s" and "cell15 lib s = Inr (s', out)"
  shows "\<exists>aipw rd rd_bs. cell14_aipw lib (nb_df st) = Inr aipw \<and> nb_rd st = Some rd \<and>
           length rd_bs = 200 \<and> out = print_limits rd rd_bs"
proof -
  from assms(1) obtain aipw where
    e: "cell14_aipw lib (nb_df st) = Inr aipw" and s: "s = st"
    by (auto simp: cell14_def split: sum.splits)
  from bootstrap_cell_limits[OF assms(2)[unfolded cell15_def]] s e show ?thesis by auto
qed

text \<open>
  In the observational part as a whole, the limits printed by cell 15 are taken around
  the risk difference of the \<^verbatim>\<open>IPSW\<close> fit of cell 11.
\<close>

lemma observational_last_limits:
  assumes "observational lib st = Inr (st', ci12, ci15)"
  shows "\<exists>df10 ipsw aipw rd_bs.
           cell11_ipsw lib df10 = Inr ipsw \<and> cell14_aipw lib df10 = Inr aipw \<and>
           length rd_bs = 200 \<and> ci15 = print_limits (risk_difference ipsw) rd_bs"
proof -
  from observational_Inr[OF assms] obtain df10 ipsw aipw s12 where
    h: "cell11_ipsw lib df10 = Inr ipsw" "nb_rd s12 = Some (risk_difference ipsw)"
       "cell14_aipw lib df10 = Inr aipw" "cell15 lib s12 = Inr (st', ci15)"
    by blast
  from bootstrap_cell_limits[OF h(4)[unfolded cell15_def]] h(2) obtain rd_bs where
    "length rd_bs = 200" "ci15 = print_limits (risk_difference ipsw) rd_bs" by auto
  with h(1,3) show ?thesis by blast
qed

text \<open>
  Nothing is dropped or drawn again: the value of every pass through the loop body sits at
  its own place in \<^verbatim>\<open>rd_bs\<close>, and one not-a-number among them makes both printed
  limits not-a-number.
\<close>

lemma bootstrap_cell_keeps_NaN:
  assumes "bootstrap_cell (loop_body lib fit) B st = Inr (st', out)"
  shows "\<exists>rd_bs gs.
           length rd_bs = B \<and> length gs = Suc B \<and>
           (\<forall>i<B. loop_body lib fit (df_loc_S (nb_df st) 1) (df_loc_S (nb_df st) 0) (gs ! i)
                     = Inr (rd_bs ! i, gs ! Suc i)) \<and>
           (NaN \<in> set rd_bs \<longrightarrow> out = (NaN, NaN))"
proof -
  from bootstrap_cell_Inr[OF assms] obtain rd_bs rd gs where
    h: "length rd_bs = B" "out = print_limits rd rd_bs" "length gs = Suc B"
       "\<forall>i<B. loop_body lib fit (df_loc_S (nb_df st) 1) (df_loc_S (nb_df st) 0) (gs ! i)
                     = Inr (rd_bs ! i, gs ! Suc i)"
    by blast
  have "NaN \<in> set rd_bs \<longrightarrow> out = (NaN, NaN)"
    using h(2) by (simp add: print_limits_NaN)
  with h show ?thesis by blast
qed

section \<open>The stand-in library with a real generator\<close>

lemma demo_frame_length [simp]: "length (add_W_sq (range_index demo_rows)) = 4"
  by (simp add: add_W_sq_def demo_rows_def)




lemma demo_choice:
  "choice demo_lib g a n True = (map (\<lambda>k. (Suc g + k * Suc g) mod a) [0..<n], Suc g)"
  by (simp add: demo_lib_def)

lemma demo_choice_two:
  "choice demo_lib g 2 2 True = ([Suc g mod 2, (Suc g + Suc g) mod 2], Suc g)"
  by (simp add: demo_choice upt_rec[of 0] upt_rec[of 1] upt_rec[of 2] numeral_2_eq_2)

lemma demo_df_sample:
  "length rows = 2 \<Longrightarrow>
   df_sample demo_lib g rows 2
     = Inr (map (\<lambda>i. rows ! i) [Suc g mod 2, (Suc g + Suc g) mod 2], Suc g)"
  by (simp add: df_sample_def demo_choice_two)

lemma demo_resample_stack:
  "length dfss = 2 \<Longrightarrow> length dftp = 2 \<Longrightarrow>
   \<exists>dfb. resample_stack demo_lib dfss dftp g = Inr (dfb, Suc (Suc g))"
  by (simp add: resample_stack_def demo_df_sample)

lemma demo_loop_body_total:
  assumes "length dfss = 2" and "length dftp = 2" and "\<And>dfb. \<exists>est. fit dfb = Inr est"
  shows "\<exists>r g'. loop_body demo_lib fit dfss dftp g = Inr (r, g')"
proof -
  from demo_resample_stack[OF assms(1,2)] obtain dfb where
    s: "resample_stack demo_lib dfss dftp g = Inr (dfb, Suc (Suc g))" by blast
  from assms(3) obtain est where "fit dfb = Inr est" by blast
  with s show ?thesis by (simp add: loop_body_def)
qed

lemma demo_bootstrap_cell_total:
  assumes "\<And>dfb. \<exists>est. fit dfb = Inr est"
    and "length (df_loc_S (nb_df s) 1) = 2" and "length (df_loc_S (nb_df s) 0) = 2"
    and "nb_rd s = Some rd"
  shows "\<exists>st' out. bootstrap_cell (loop_body demo_lib fit) B s = Inr (st', out)"
proof -
  let ?body = "loop_body demo_lib fit (df_loc_S (nb_df s) 1) (df_loc_S (nb_df s) 0)"
  have "\<exists>r g'. ?body g = Inr (r, g')" for g
    using demo_loop_body_total[OF assms(2,3,1)] .
  from bootstrap_loop_total[of ?body, OF this] obtain rds g' where
    "bootstrap_loop ?body B (nb_rng s) [] = Inr (rds, g')" by blast
  then show ?thesis using assms(4) by (simp add: bootstrap_cell_def)
qed


section \<open>What every cell fits\<close>

lemma bootstrap_cell_fits:
  assumes "bootstrap_cell (loop_body lib fit) B st = Inr (st', out)"
    and "dfss = df_loc_S (nb_df st) 1" and "dftp = df_loc_S (nb_df st) 0"
  shows "\<exists>rd_bs rd gs.
           length rd_bs = B \<and> nb_rd st = Some rd \<and> out = print_limits rd rd_bs \<and>
           length gs = Suc B \<and> gs ! 0 = nb_rng st \<and>
           (\<forall>i<B. \<exists>dfb est.
              resample_stack lib dfss dftp (gs ! i) = Inr (dfb, gs ! Suc i) \<and>
              fit dfb = Inr est \<and> rd_bs ! i = risk_difference est)"
proof -
  from bootstrap_cell_Inr[OF assms(1)] obtain rd_bs rd gs where
    h: "length rd_bs = B" "nb_rd st = Some rd" "out = print_limits rd rd_bs"
       "length gs = Suc B" "gs ! 0 = nb_rng st"
       "\<forall>i<B. loop_body lib fit dfss dftp (gs ! i) = Inr (rd_bs ! i, gs ! Suc i)"
    unfolding assms(2,3) by blast
  have "\<forall>i<B. \<exists>dfb est.
              resample_stack lib dfss dftp (gs ! i) = Inr (dfb, gs ! Suc i) \<and>
              fit dfb = Inr est \<and> rd_bs ! i = risk_difference est"
  proof (intro allI impI)
    fix i assume "i < B"
    with h(6) have "loop_body lib fit dfss dftp (gs ! i) = Inr (rd_bs ! i, gs ! Suc i)" by blast
    then show "\<exists>dfb est.
              resample_stack lib dfss dftp (gs ! i) = Inr (dfb, gs ! Suc i) \<and>
              fit dfb = Inr est \<and> rd_bs ! i = risk_difference est"
      by (auto simp: loop_body_def split: sum.splits prod.splits)
  qed
  with h(1-5) show ?thesis by blast
qed

lemma bootstrap_cell_fits_weighted:
  assumes "bootstrap_cell (loop_body lib (\<lambda>dfb. case iptw_step lib dfb of Inl e \<Rightarrow> Inl e
                                   | Inr dfw \<Rightarrow> est dfw)) B st = Inr (st', out)"
    and "dfss = df_loc_S (nb_df st) 1" and "dftp = df_loc_S (nb_df st) 0"
  shows "\<exists>rd_bs rd gs.
           length rd_bs = B \<and> nb_rd st = Some rd \<and> out = print_limits rd rd_bs \<and>
           length gs = Suc B \<and> gs ! 0 = nb_rng st \<and>
           (\<forall>i<B. \<exists>dfb dfw e.
              resample_stack lib dfss dftp (gs ! i) = Inr (dfb, gs ! Suc i) \<and>
              iptw_step lib dfb = Inr dfw \<and>
              est dfw = Inr e \<and> rd_bs ! i = risk_difference e)"
proof -
  from bootstrap_cell_fits[OF assms] obtain rd_bs rd gs where
    h: "length rd_bs = B" "nb_rd st = Some rd" "out = print_limits rd rd_bs"
       "length gs = Suc B" "gs ! 0 = nb_rng st"
       "\<forall>i<B. \<exists>dfb e.
              resample_stack lib dfss dftp (gs ! i) = Inr (dfb, gs ! Suc i) \<and>
              (case iptw_step lib dfb of Inl e \<Rightarrow> Inl e | Inr dfw \<Rightarrow> est dfw) = Inr e \<and>
              rd_bs ! i = risk_difference e"
    by blast
  have "\<forall>i<B. \<exists>dfb dfw e.
              resample_stack lib dfss dftp (gs ! i) = Inr (dfb, gs ! Suc i) \<and>
              iptw_step lib dfb = Inr dfw \<and>
              est dfw = Inr e \<and> rd_bs ! i = risk_difference e"
  proof (intro allI impI)
    fix i assume "i < B"
    with h(6) obtain dfb e where
      k: "resample_stack lib dfss dftp (gs ! i) = Inr (dfb, gs ! Suc i)"
         "(case iptw_step lib dfb of Inl e \<Rightarrow> Inl e | Inr dfw \<Rightarrow> est dfw) = Inr e"
         "rd_bs ! i = risk_difference e"
      by blast
    from k(2) obtain dfw where "iptw_step lib dfb = Inr dfw" "est dfw = Inr e"
      by (auto split: sum.splits)
    with k(1,3) show "\<exists>dfb dfw e.
              resample_stack lib dfss dftp (gs ! i) = Inr (dfb, gs ! Suc i) \<and>
              iptw_step lib dfb = Inr dfw \<and>
              est dfw = Inr e \<and> rd_bs ! i = risk_difference e"
      by blast
  qed
  with h(1-5) show ?thesis by blast
qed

lemma cell12_fit_eq:
  "cell12_fit lib = (\<lambda>dfb. case iptw_step lib dfb of Inl e \<Rightarrow> Inl e
                             | Inr dfb' \<Rightarrow> cell12_ipsw lib dfb')"
  by (intro ext) (simp add: cell12_fit_def)

lemma cell15_fit_eq:
  "cell15_fit lib = (\<lambda>dfb. case iptw_step lib dfb of Inl e \<Rightarrow> Inl e
                             | Inr dfb' \<Rightarrow> cell15_aipw lib dfb')"
  by (intro ext) (simp add: cell15_fit_def)

lemma fits_of_cell3:
  assumes "cell3 lib st = Inr pta"
    and "dfss = df_loc_S (nb_df st) 1" and "dftp = df_loc_S (nb_df st) 0"
  shows "\<exists>est. IPSW lib (nb_df st) ''A'' ''Y'' ''S'' True None
              ''L + W + W_sq + L:W + L:W_sq'' = Inr est \<and>
         pta = st\<lparr>nb_rd := Some (risk_difference est)\<rparr>"
  using assms(1) by (auto simp: cell3_def cell3_ipsw_def cell3_model_def split: sum.splits)

lemma fits_of_cell4:
  assumes "cell4 lib st = Inr (bsa, outa)"
    and "dfss = df_loc_S (nb_df st) 1" and "dftp = df_loc_S (nb_df st) 0"
  shows "\<exists>rd_bs rd gs.
         length rd_bs = 200 \<and> nb_rd st = Some rd \<and> outa = print_limits rd rd_bs \<and>
         length gs = 201 \<and> gs ! 0 = nb_rng st \<and>
         (\<forall>i<200. \<exists>dfb est.
            resample_stack lib dfss dftp (gs ! i) = Inr (dfb, gs ! Suc i) \<and>
            IPSW lib dfb ''A'' ''Y'' ''S'' True None
              ''L + W + L:W'' = Inr est \<and>
            rd_bs ! i = risk_difference est)"
  using bootstrap_cell_fits[OF assms(1)[unfolded cell4_def] assms(2,3)]
  unfolding cell4_ipsw_def cell4_model_def by simp

lemma fits_of_cell11:
  assumes "cell11 lib st = Inr ptb"
    and "dfss = df_loc_S (nb_df st) 1" and "dftp = df_loc_S (nb_df st) 0"
  shows "\<exists>est. IPSW lib (nb_df st) ''A'' ''Y'' ''S'' True (Some ''iptw'')
              ''L + W + W_sq + L:W + L:W_sq'' = Inr est \<and>
         ptb = st\<lparr>nb_rd := Some (risk_difference est)\<rparr>"
  using assms(1) by (auto simp: cell11_def cell11_ipsw_def cell11_model_def split: sum.splits)

lemma fits_of_cell12:
  assumes "cell12 lib st = Inr (bsb, outb)"
    and "dfss = df_loc_S (nb_df st) 1" and "dftp = df_loc_S (nb_df st) 0"
  shows "\<exists>rd_bs rd gs.
         length rd_bs = 200 \<and> nb_rd st = Some rd \<and> outb = print_limits rd rd_bs \<and>
         length gs = 201 \<and> gs ! 0 = nb_rng st \<and>
         (\<forall>i<200. \<exists>dfb dfw est.
            resample_stack lib dfss dftp (gs ! i) = Inr (dfb, gs ! Suc i) \<and>
            iptw_step lib dfb = Inr dfw \<and>
            IPSW lib dfw ''A'' ''Y'' ''S'' True (Some ''iptw'')
              ''L + W + L:W'' = Inr est \<and>
            rd_bs ! i = risk_difference est)"
  using bootstrap_cell_fits_weighted[OF assms(1)[unfolded cell12_def cell12_fit_eq] assms(2,3)]
  unfolding cell12_ipsw_def cell12_model_def by simp

lemma fits_of_cell5:
  assumes "cell5 lib st = Inr ptc"
    and "dfss = df_loc_S (nb_df st) 1" and "dftp = df_loc_S (nb_df st) 0"
  shows "\<exists>est. GTransportFormula lib (nb_df st) ''A'' ''Y'' ''S'' True None
              ''A + L + W + W_sq + A:L + A:W + A:W_sq'' = Inr est \<and>
         ptc = st\<lparr>nb_rd := Some (risk_difference est)\<rparr>"
  using assms(1) by (auto simp: cell5_def cell5_gtf_def cell5_model_def split: sum.splits)

lemma fits_of_cell6:
  assumes "cell6 lib st = Inr (bsc, outc)"
    and "dfss = df_loc_S (nb_df st) 1" and "dftp = df_loc_S (nb_df st) 0"
  shows "\<exists>rd_bs rd gs.
         length rd_bs = 200 \<and> nb_rd st = Some rd \<and> outc = print_limits rd rd_bs \<and>
         length gs = 201 \<and> gs ! 0 = nb_rng st \<and>
         (\<forall>i<200. \<exists>dfb est.
            resample_stack lib dfss dftp (gs ! i) = Inr (dfb, gs ! Suc i) \<and>
            GTransportFormula lib dfb ''A'' ''Y'' ''S'' True None
              ''A + L + W + W_sq + A:L + A:W + A:W_sq'' = Inr est \<and>
            rd_bs ! i = risk_difference est)"
  using bootstrap_cell_fits[OF assms(1)[unfolded cell6_def] assms(2,3)]
  unfolding cell6_gtf_def cell6_model_def by simp

lemma fits_of_cell7:
  assumes "cell7 lib st = Inr ptd"
    and "dfss = df_loc_S (nb_df st) 1" and "dftp = df_loc_S (nb_df st) 0"
  shows "\<exists>est. AIPSW lib (nb_df st) ''A'' ''Y'' ''S'' True None
              ''L + W + W_sq + L:W + L:W_sq''
              ''A + L + W + W_sq + A:L + A:W + A:W_sq'' = Inr est \<and>
         ptd = st\<lparr>nb_rd := Some (risk_difference est)\<rparr>"
  using assms(1) by (auto simp: cell7_def cell7_aipw_def cell7_weight_model_def cell7_outcome_model_def split: sum.splits)

lemma fits_of_cell8:
  assumes "cell8 lib st = Inr (bsd, outd)"
    and "dfss = df_loc_S (nb_df st) 1" and "dftp = df_loc_S (nb_df st) 0"
  shows "\<exists>rd_bs rd gs.
         length rd_bs = 200 \<and> nb_rd st = Some rd \<and> outd = print_limits rd rd_bs \<and>
         length gs = 201 \<and> gs ! 0 = nb_rng st \<and>
         (\<forall>i<200. \<exists>dfb est.
            resample_stack lib dfss dftp (gs ! i) = Inr (dfb, gs ! Suc i) \<and>
            AIPSW lib dfb ''A'' ''Y'' ''S'' True None
              ''L + W + W_sq + L:W + L:W_sq''
              ''A + L + W + W_sq + A:L + A:W + A:W_sq'' = Inr est \<and>
            rd_bs ! i = risk_difference est)"
  using bootstrap_cell_fits[OF assms(1)[unfolded cell8_def] assms(2,3)]
  unfolding cell8_aipw_def cell8_weight_model_def cell8_outcome_model_def by simp

lemma fits_of_cell14:
  assumes "cell14 lib st = Inr pte"
    and "dfss = df_loc_S (nb_df st) 1" and "dftp = df_loc_S (nb_df st) 0"
  shows "\<exists>est. AIPSW lib (nb_df st) ''A'' ''Y'' ''S'' True (Some ''iptw'')
              ''L + W + W_sq + L:W + L:W_sq''
              ''A + L + W + W_sq + A:L'' = Inr est \<and>
         pte = st"
  using assms(1) by (auto simp: cell14_def cell14_aipw_def cell14_weight_model_def cell14_outcome_model_def split: sum.splits)

lemma fits_of_cell15:
  assumes "cell15 lib st = Inr (bse, oute)"
    and "dfss = df_loc_S (nb_df st) 1" and "dftp = df_loc_S (nb_df st) 0"
  shows "\<exists>rd_bs rd gs.
         length rd_bs = 200 \<and> nb_rd st = Some rd \<and> oute = print_limits rd rd_bs \<and>
         length gs = 201 \<and> gs ! 0 = nb_rng st \<and>
         (\<forall>i<200. \<exists>dfb dfw est.
            resample_stack lib dfss dftp (gs ! i) = Inr (dfb, gs ! Suc i) \<and>
            iptw_step lib dfb = Inr dfw \<and>
            AIPSW lib dfw ''A'' ''Y'' ''S'' True (Some ''iptw'')
              ''L + W + W_sq + L:W + L:W_sq''
              ''A + L + W + W_sq + A:L'' = Inr est \<and>
            rd_bs ! i = risk_difference est)"
  using bootstrap_cell_fits_weighted[OF assms(1)[unfolded cell15_def cell15_fit_eq] assms(2,3)]
  unfolding cell15_aipw_def cell15_weight_model_def cell15_outcome_model_def by simp

lemma formula_terms_cell3:
  "formula_terms cell3_model = [''L'', ''W'', ''W_sq'', ''L:W'', ''L:W_sq'']"
  by (simp add: formula_terms_def cell3_model_def)

lemma formula_terms_cell4: "formula_terms cell4_model = [''L'', ''W'', ''L:W'']"
  by (simp add: formula_terms_def cell4_model_def)

lemma ipsw_replicate_differs:
  "(cell4_ipsw :: 'g library \<Rightarrow> row list \<Rightarrow> pyerr + estimate) \<noteq> cell3_ipsw"
  "(cell12_ipsw :: 'g library \<Rightarrow> row list \<Rightarrow> pyerr + estimate) \<noteq> cell11_ipsw"
proof -
  let ?lib = "\<lparr>load_generalize_data = (\<lambda>c. []),
      IPSW = (\<lambda>df e y s gen w m. Inr \<lparr>risk_difference = Fin (real (length m)), risk_ratio = NaN\<rparr>),
      GTransportFormula = (\<lambda>df e y s gen w m. Inl ValueError),
      AIPSW = (\<lambda>df e y s gen w wm om. Inl ValueError),
      IPTW = (\<lambda>df t y m. Inl ValueError),
      choice = (\<lambda>g a n replace. ([], g))\<rparr> :: 'g library"
  have "cell4_ipsw ?lib [] \<noteq> cell3_ipsw ?lib []"
    by (simp add: cell4_ipsw_def cell3_ipsw_def cell3_model_def cell4_model_def)
  then show "(cell4_ipsw :: 'g library \<Rightarrow> row list \<Rightarrow> pyerr + estimate) \<noteq> cell3_ipsw"
    by metis
  have "cell12_ipsw ?lib [] \<noteq> cell11_ipsw ?lib []"
    by (simp add: cell12_ipsw_def cell11_ipsw_def cell11_model_def cell12_model_def)
  then show "(cell12_ipsw :: 'g library \<Rightarrow> row list \<Rightarrow> pyerr + estimate) \<noteq> cell11_ipsw"
    by metis
qed

lemma formula_terms_literals:
  "formula_terms ''L + W + L:W'' = [''L'', ''W'', ''L:W'']"
  "formula_terms ''L + W + W_sq + L:W + L:W_sq'' = [''L'', ''W'', ''W_sq'', ''L:W'', ''L:W_sq'']"
  using formula_terms_cell3 formula_terms_cell4
  by (simp_all add: cell3_model_def cell4_model_def)

lemma demo_iptw_step_total: "\<exists>df'. iptw_step demo_lib df = Inr df'"
  by (simp add: iptw_step_def demo_lib_def Let_def)

section \<open>Weights by label\<close>

text \<open>
  After \<^verbatim>\<open>df = pd.concat([dfs, ...], ignore_index=True)\<close> the trial records stand first
  and are labelled by their positions.
\<close>

lemma iptw_step_sample_labels:
  assumes "iptw_step lib df = Inr df'"
  shows "map row_label (df_loc_S df' 1) = [0..<length (df_loc_S df' 1)]"
proof -
  let ?s = "df_loc_S df 1" and ?t = "df_loc_S df 0"
  from assms obtain w where
    d: "df' = pd_concat [set_iptw ?s w, ?t] True"
    by (auto simp: iptw_step_def Let_def split: sum.splits)
  let ?s' = "set_iptw ?s w"
  let ?k = "pd_concat [?s', ?t] False"
  have d': "df' = range_index ?k" unfolding d by (rule pd_concat_fresh)
  have "\<forall>r\<in>set ?s. col_S r = 1" by (simp add: df_loc_S_def)
  with map_col_S_loc[of ?s' ?s 1] have s1: "\<forall>r\<in>set ?s'. col_S r = 1" by simp
  have t0: "\<forall>r\<in>set ?t. col_S r \<noteq> 1" by (simp add: df_loc_S_def)
  obtain k' t' where k: "?k = k' @ t'" "length k' = length ?s'"
    "\<forall>r\<in>set k'. col_S r = 1" "\<forall>r\<in>set t'. col_S r \<noteq> 1"
  proof (cases "?k = ?s' @ ?t")
    case True
    with s1 t0 that[of ?s' ?t] show ?thesis by simp
  next
    case False
    with pd_concat_two[of ?s' ?t] have "?k = map fill_iptw ?s' @ map fill_iptw ?t" by simp
    with s1 t0 that[of "map fill_iptw ?s'" "map fill_iptw ?t"] show ?thesis by simp
  qed
  have "df_loc_S (range_index (k' @ t')) 1 = take (length k') (range_index (k' @ t'))"
  proof -
    have a: "range_index (k' @ t')
        = take (length k') (range_index (k' @ t')) @ drop (length k') (range_index (k' @ t'))"
      by simp
    have b: "\<forall>r\<in>set (take (length k') (range_index (k' @ t'))). col_S r = 1"
    proof
      fix r assume "r \<in> set (take (length k') (range_index (k' @ t')))"
      then obtain i where i: "i < length k'" "r = range_index (k' @ t') ! i"
        by (auto simp: in_set_conv_nth)
      then have "r = (k' ! i)\<lparr>row_label := i\<rparr>"
        by (simp add: range_index_nth nth_append)
      with i(1) k(3) show "col_S r = 1" by simp
    qed
    have c: "\<forall>r\<in>set (drop (length k') (range_index (k' @ t'))). col_S r \<noteq> 1"
    proof
      fix r assume "r \<in> set (drop (length k') (range_index (k' @ t')))"
      then obtain i where i: "i < length t'" "r = range_index (k' @ t') ! (length k' + i)"
        by (auto simp: in_set_conv_nth)
      then have "r = (t' ! i)\<lparr>row_label := length k' + i\<rparr>"
        by (simp add: range_index_nth nth_append)
      with i(1) k(4) show "col_S r \<noteq> 1" by simp
    qed
    have "df_loc_S (range_index (k' @ t')) 1
        = df_loc_S (take (length k') (range_index (k' @ t'))) 1
          @ df_loc_S (drop (length k') (range_index (k' @ t'))) 1"
      by (metis a df_loc_S_append)
    also have "\<dots> = take (length k') (range_index (k' @ t'))"
      using df_loc_S_all[OF b] df_loc_S_none[OF c] by simp
    finally show ?thesis .
  qed
  then have e: "df_loc_S df' 1 = take (length k') (range_index ?k)"
    unfolding d' k(1) .
  have "map row_label (take (length k') (range_index ?k)) = take (length k') [0..<length ?k]"
    by (simp add: take_map[symmetric] range_index_labels)
  also have "\<dots> = [0..<length k']" using k(1) by (simp add: take_upt)
  finally show ?thesis unfolding e using k(1) by simp
qed

text \<open>
  A replicate of cells 12 and 15. When the trial records of \<^verbatim>\<open>df\<close> are labelled by
  their positions, as cell 10 leaves them, the resampled record at position \<open>k\<close> has the
  label \<open>locs ! k\<close>, the position it was drawn from, and receives the weight that \<^verbatim>\<open>IPTW\<close>
  computed for the record at that position of the resample, not the one computed for
  itself.
\<close>

lemma replicate_weights_by_label:
  assumes labels: "map row_label dfss = [0..<length dfss]"
    and s1: "\<forall>r\<in>set dfss. col_S r = 1" and s0: "\<forall>r\<in>set dft. col_S r = 0"
    and locs: "\<forall>j\<in>set locs. j < length dfss"
    and step: "iptw_step lib (pd_concat [map (\<lambda>j. dfss ! j) locs, dft] False) = Inr dfw"
    and w: "IPTW lib (df_loc_S (pd_concat [map (\<lambda>j. dfss ! j) locs, dft] False) 1)
              ''A'' ''Y'' iptw_model = Inr w"
    and lw: "length w = length locs"
    and ll: "length locs = length dfss"
  shows "map col_iptw (df_loc_S dfw 1) = map (\<lambda>p. Some (w ! p)) locs"
proof -
  let ?dfs = "map (\<lambda>j. dfss ! j) locs"
  let ?dfb = "pd_concat [?dfs, dft] False"
  have a1: "df_loc_S ?dfs 1 = ?dfs" using locs s1 by (intro df_loc_S_all) auto
  have b1: "df_loc_S dft 1 = []"
  proof (rule df_loc_S_none)
    show "\<forall>r\<in>set dft. col_S r \<noteq> 1" using s0 by fastforce
  qed
  have "map row_label (df_loc_S ?dfb 1) = map row_label ?dfs"
  proof -
    define dfs where "dfs = ?dfs"
    have a: "df_loc_S dfs 1 = dfs" unfolding dfs_def by (rule a1)
    from pd_concat_two[of dfs dft] show ?thesis
    proof
      assume "pd_concat [dfs, dft] False = dfs @ dft"
      then have "df_loc_S (pd_concat [dfs, dft] False) 1 = dfs"
        by (simp add: df_loc_S_append a b1)
      then show ?thesis unfolding dfs_def by simp
    next
      assume "pd_concat [dfs, dft] False = map fill_iptw (dfs @ dft)"
      then have "df_loc_S (pd_concat [dfs, dft] False) 1 = map fill_iptw dfs"
        by (simp only: df_loc_S_map_fill df_loc_S_append a b1 append_Nil2)
      then have "map row_label (df_loc_S (pd_concat [dfs, dft] False) 1) = map row_label dfs"
        by (simp add: comp_def)
      then show ?thesis unfolding dfs_def .
    qed
  qed
  also have "\<dots> = locs"
  proof (rule nth_equalityI)
    show "length (map row_label ?dfs) = length locs" by simp
  next
    fix i assume "i < length (map row_label ?dfs)"
    then have i: "i < length locs" by simp
    then have "locs ! i < length dfss" using locs by simp
    then have "row_label (dfss ! (locs ! i)) = locs ! i"
      using labels by (metis add_0 nth_map nth_upt)
    then show "map row_label ?dfs ! i = locs ! i" using i by simp
  qed
  finally have lab: "map row_label (df_loc_S ?dfb 1) = locs" .
  from iptw_step_Inr[OF step] w have
    "map col_iptw (df_loc_S dfw 1)
       = map (\<lambda>r. Some (if row_label r < length w then w ! row_label r else NaN))
           (df_loc_S ?dfb 1)"
    by auto
  also have "\<dots> = map ((\<lambda>p. Some (if p < length w then w ! p else NaN)) \<circ> row_label)
                     (df_loc_S ?dfb 1)"
    by (simp add: comp_def)
  also have "\<dots> = map (\<lambda>p. Some (if p < length w then w ! p else NaN)) locs"
    unfolding map_map[symmetric] lab ..
  also have "\<dots> = map (\<lambda>p. Some (w ! p)) locs"
    using locs lw ll by (intro map_cong refl) simp
  finally show ?thesis .
qed






section \<open>Rounded and exact arithmetic\<close>

text \<open>Without rounding the operations are the exact ones.\<close>

lemma radd_exact [simp]: "radd (\<lambda>x. x) = fadd"
proof (intro ext)
  fix a b show "radd (\<lambda>x. x) a b = fadd a b" by (cases a; cases b) simp_all
qed

lemma rsub_exact [simp]: "rsub (\<lambda>x. x) = fsub"
proof (intro ext)
  fix a b show "rsub (\<lambda>x. x) a b = fsub a b" by (cases a; cases b) simp_all
qed

lemma rmul_exact [simp]: "rmul (\<lambda>x. x) = fmul"
proof (intro ext)
  fix a b show "rmul (\<lambda>x. x) a b = fmul a b" by (cases a; cases b) simp_all
qed

lemma rdiv_exact [simp]: "rdiv (\<lambda>x. x) = fdiv"
proof (intro ext)
  fix a b show "rdiv (\<lambda>x. x) a b = fdiv a b" by (cases a; cases b) simp_all
qed

lemma rsqrt_exact [simp]: "rsqrt (\<lambda>x. x) = fsqrt"
proof (intro ext)
  fix a show "rsqrt (\<lambda>x. x) a = fsqrt a" by (cases a) simp_all
qed




lemma fadd_commute: "fadd a b = fadd b a"
  by (cases a; cases b) simp_all


lemma fadd_zero [simp]: "fadd (Fin 0) a = a" "fadd a (Fin 0) = a"
  by (cases a; simp)+

lemma np_sum_Nil [simp]: "np_sum [] = Fin 0"
  by (simp add: np_sum_def)
































section \<open>Results\<close>



text \<open>
  C2. Every bootstrap cell computes \<^verbatim>\<open>np.std(rd_bs, ddof=1)\<close> and prints
  \<^verbatim>\<open>rd - 1.96*se\<close> and \<^verbatim>\<open>rd + 1.96*se\<close> rounded to three decimals, and in cells 4, 6, 8
  and 12 the variable \<^verbatim>\<open>rd\<close> is the point estimate of the estimator being resampled
  (lemmas \<open>conf_limits_Fin\<close>, \<open>cell3_then_cell4\<close>, \<open>cell5_then_cell6\<close>,
  \<open>cell7_then_cell8\<close>, \<open>cell11_then_cell12\<close>). Cell 15 is different: cell 14 prints the
  \<^verbatim>\<open>AIPSW\<close> estimate without assigning it to \<^verbatim>\<open>rd\<close>, so the limits of cell 15 are taken
  around the \<^verbatim>\<open>IPSW\<close> estimate of cell 11 (lemma \<open>observational_last_limits\<close>). The
  theorem runs the observational part with every estimator returning the numbers the
  notebook printed: the \<^verbatim>\<open>AIPSW\<close> estimate is 0.0426 and all its replicates equal it, yet
  cell 15 prints 0.051 twice, the rounded \<^verbatim>\<open>IPSW\<close> estimate 0.0506, where limits around
  0.0426 would print 0.043.
\<close>

theorem cell15_limits_around_cell11_estimate:
  "observational replay_lib (fresh_notebook ())
     = Inr (\<lparr>nb_df = demo_rows_weighted, nb_rd = Some (Fin 0.0506), nb_rng = ()\<rparr>,
            (Fin 0.051, Fin 0.051), (Fin 0.051, Fin 0.051)) \<and>
   cell11_ipsw replay_lib demo_rows_weighted
     = Inr \<lparr>risk_difference = Fin 0.0506, risk_ratio = Fin 1.1572\<rparr> \<and>
   cell14_aipw replay_lib demo_rows_weighted
     = Inr \<lparr>risk_difference = Fin 0.0426, risk_ratio = Fin 1.1369\<rparr> \<and>
   cell15 replay_lib \<lparr>nb_df = demo_rows_weighted, nb_rd = Some (Fin 0.0506), nb_rng = ()\<rparr>
     = Inr (\<lparr>nb_df = demo_rows_weighted, nb_rd = Some (Fin 0.0506), nb_rng = ()\<rparr>,
            print_limits (Fin 0.0506) (replicate 200 (Fin 0.0426))) \<and>
   print_limits (Fin 0.0506) (replicate 200 (Fin 0.0426)) = (Fin 0.051, Fin 0.051) \<and>
   print_limits (Fin 0.0426) (replicate 200 (Fin 0.0426)) = (Fin 0.043, Fin 0.043)"
proof -
  let ?s = "\<lparr>nb_df = demo_rows_weighted, nb_rd = Some (Fin 0.0506), nb_rng = ()\<rparr>"
  have a: "cell11_ipsw replay_lib demo_rows_weighted
     = Inr \<lparr>risk_difference = Fin 0.0506, risk_ratio = Fin 1.1572\<rparr>"
    by (simp add: cell11_ipsw_def replay_lib_def)
  have b: "cell14_aipw replay_lib demo_rows_weighted
     = Inr \<lparr>risk_difference = Fin 0.0426, risk_ratio = Fin 1.1369\<rparr>"
    by (simp add: cell14_aipw_def replay_lib_def)
  have c: "cell15 replay_lib ?s = Inr (?s, print_limits (Fin 0.0506) (replicate 200 (Fin 0.0426)))"
    by (rule replay_cell15) simp
  have d: "print_limits (Fin 0.0426) (replicate 200 (Fin 0.0426)) = (Fin 0.043, Fin 0.043)"
  proof -
    have "print_limits (Fin 0.0426) (replicate 200 (Fin 0.0426))
            = (np_round (Fin 0.0426) 3, np_round (Fin 0.0426) 3)"
      by (rule print_limits_replicate) simp
    then show ?thesis by (simp only: np_round_0426)
  qed
  from replay_observational a b c replay_limits[of "0.0426"] d show ?thesis
    by (intro conjI)
qed





text \<open>
  C10. Every replicate of the two bootstrap cells for \<^verbatim>\<open>IPSW\<close> (cell 4 and, in the
  observational part, cell 12) fits the sampling model \<^verbatim>\<open>'L + W + L:W'\<close>, while the point
  estimates they belong to (cells 3 and 11) are fitted with
  \<^verbatim>\<open>'L + W + W_sq + L:W + L:W_sq'\<close>: the terms \<^verbatim>\<open>W_sq\<close> and \<^verbatim>\<open>L:W_sq\<close> are missing in the
  replicates, every other argument of the call is the same, and the call made for a
  replicate is not the call made for the point estimate. Every replicate of the bootstrap
  cells for \<^verbatim>\<open>GTransportFormula\<close> (cell 6) and \<^verbatim>\<open>AIPSW\<close> (cells 8 and 15) is fitted with
  the formulas of its point estimate (cells 5, 7 and 14).
\<close>

theorem replicate_formulas:
  fixes lib :: "'g library"
  assumes "dfss = df_loc_S (nb_df st) 1" and "dftp = df_loc_S (nb_df st) 0"
  shows
   "(cell3 lib st = Inr pta \<longrightarrow>
      (\<exists>est. IPSW lib (nb_df st) ''A'' ''Y'' ''S'' True None
              ''L + W + W_sq + L:W + L:W_sq'' = Inr est \<and>
         pta = st\<lparr>nb_rd := Some (risk_difference est)\<rparr>)) \<and>
    (cell4 lib st = Inr (bsa, outa) \<longrightarrow>
      (\<exists>rd_bs rd gs.
         length rd_bs = 200 \<and> nb_rd st = Some rd \<and> outa = print_limits rd rd_bs \<and>
         length gs = 201 \<and> gs ! 0 = nb_rng st \<and>
         (\<forall>i<200. \<exists>dfb est.
            resample_stack lib dfss dftp (gs ! i) = Inr (dfb, gs ! Suc i) \<and>
            IPSW lib dfb ''A'' ''Y'' ''S'' True None
              ''L + W + L:W'' = Inr est \<and>
            rd_bs ! i = risk_difference est))) \<and>
    (cell11 lib st = Inr ptb \<longrightarrow>
      (\<exists>est. IPSW lib (nb_df st) ''A'' ''Y'' ''S'' True (Some ''iptw'')
              ''L + W + W_sq + L:W + L:W_sq'' = Inr est \<and>
         ptb = st\<lparr>nb_rd := Some (risk_difference est)\<rparr>)) \<and>
    (cell12 lib st = Inr (bsb, outb) \<longrightarrow>
      (\<exists>rd_bs rd gs.
         length rd_bs = 200 \<and> nb_rd st = Some rd \<and> outb = print_limits rd rd_bs \<and>
         length gs = 201 \<and> gs ! 0 = nb_rng st \<and>
         (\<forall>i<200. \<exists>dfb dfw est.
            resample_stack lib dfss dftp (gs ! i) = Inr (dfb, gs ! Suc i) \<and>
            iptw_step lib dfb = Inr dfw \<and>
            IPSW lib dfw ''A'' ''Y'' ''S'' True (Some ''iptw'')
              ''L + W + L:W'' = Inr est \<and>
            rd_bs ! i = risk_difference est))) \<and>
    (cell5 lib st = Inr ptc \<longrightarrow>
      (\<exists>est. GTransportFormula lib (nb_df st) ''A'' ''Y'' ''S'' True None
              ''A + L + W + W_sq + A:L + A:W + A:W_sq'' = Inr est \<and>
         ptc = st\<lparr>nb_rd := Some (risk_difference est)\<rparr>)) \<and>
    (cell6 lib st = Inr (bsc, outc) \<longrightarrow>
      (\<exists>rd_bs rd gs.
         length rd_bs = 200 \<and> nb_rd st = Some rd \<and> outc = print_limits rd rd_bs \<and>
         length gs = 201 \<and> gs ! 0 = nb_rng st \<and>
         (\<forall>i<200. \<exists>dfb est.
            resample_stack lib dfss dftp (gs ! i) = Inr (dfb, gs ! Suc i) \<and>
            GTransportFormula lib dfb ''A'' ''Y'' ''S'' True None
              ''A + L + W + W_sq + A:L + A:W + A:W_sq'' = Inr est \<and>
            rd_bs ! i = risk_difference est))) \<and>
    (cell7 lib st = Inr ptd \<longrightarrow>
      (\<exists>est. AIPSW lib (nb_df st) ''A'' ''Y'' ''S'' True None
              ''L + W + W_sq + L:W + L:W_sq''
              ''A + L + W + W_sq + A:L + A:W + A:W_sq'' = Inr est \<and>
         ptd = st\<lparr>nb_rd := Some (risk_difference est)\<rparr>)) \<and>
    (cell8 lib st = Inr (bsd, outd) \<longrightarrow>
      (\<exists>rd_bs rd gs.
         length rd_bs = 200 \<and> nb_rd st = Some rd \<and> outd = print_limits rd rd_bs \<and>
         length gs = 201 \<and> gs ! 0 = nb_rng st \<and>
         (\<forall>i<200. \<exists>dfb est.
            resample_stack lib dfss dftp (gs ! i) = Inr (dfb, gs ! Suc i) \<and>
            AIPSW lib dfb ''A'' ''Y'' ''S'' True None
              ''L + W + W_sq + L:W + L:W_sq''
              ''A + L + W + W_sq + A:L + A:W + A:W_sq'' = Inr est \<and>
            rd_bs ! i = risk_difference est))) \<and>
    (cell14 lib st = Inr pte \<longrightarrow>
      (\<exists>est. AIPSW lib (nb_df st) ''A'' ''Y'' ''S'' True (Some ''iptw'')
              ''L + W + W_sq + L:W + L:W_sq''
              ''A + L + W + W_sq + A:L'' = Inr est \<and>
         pte = st)) \<and>
    (cell15 lib st = Inr (bse, oute) \<longrightarrow>
      (\<exists>rd_bs rd gs.
         length rd_bs = 200 \<and> nb_rd st = Some rd \<and> oute = print_limits rd rd_bs \<and>
         length gs = 201 \<and> gs ! 0 = nb_rng st \<and>
         (\<forall>i<200. \<exists>dfb dfw est.
            resample_stack lib dfss dftp (gs ! i) = Inr (dfb, gs ! Suc i) \<and>
            iptw_step lib dfb = Inr dfw \<and>
            AIPSW lib dfw ''A'' ''Y'' ''S'' True (Some ''iptw'')
              ''L + W + W_sq + L:W + L:W_sq''
              ''A + L + W + W_sq + A:L'' = Inr est \<and>
            rd_bs ! i = risk_difference est))) \<and>
    formula_terms ''L + W + L:W'' = [''L'', ''W'', ''L:W''] \<and>
    formula_terms ''L + W + W_sq + L:W + L:W_sq'' = [''L'', ''W'', ''W_sq'', ''L:W'', ''L:W_sq''] \<and>
    filter (\<lambda>t. t \<notin> set (formula_terms ''L + W + L:W'')) (formula_terms ''L + W + W_sq + L:W + L:W_sq'')
      = [''W_sq'', ''L:W_sq''] \<and>
    (cell4_ipsw :: 'g library \<Rightarrow> row list \<Rightarrow> pyerr + estimate) \<noteq> cell3_ipsw \<and>
    (cell12_ipsw :: 'g library \<Rightarrow> row list \<Rightarrow> pyerr + estimate) \<noteq> cell11_ipsw"
proof (intro conjI impI)
  assume "cell3 lib st = Inr pta"
  then show "\<exists>est. IPSW lib (nb_df st) ''A'' ''Y'' ''S'' True None
              ''L + W + W_sq + L:W + L:W_sq'' = Inr est \<and>
         pta = st\<lparr>nb_rd := Some (risk_difference est)\<rparr>"
    using assms by (rule fits_of_cell3)
next
  assume "cell4 lib st = Inr (bsa, outa)"
  then show "\<exists>rd_bs rd gs.
         length rd_bs = 200 \<and> nb_rd st = Some rd \<and> outa = print_limits rd rd_bs \<and>
         length gs = 201 \<and> gs ! 0 = nb_rng st \<and>
         (\<forall>i<200. \<exists>dfb est.
            resample_stack lib dfss dftp (gs ! i) = Inr (dfb, gs ! Suc i) \<and>
            IPSW lib dfb ''A'' ''Y'' ''S'' True None
              ''L + W + L:W'' = Inr est \<and>
            rd_bs ! i = risk_difference est)"
    using assms by (rule fits_of_cell4)
next
  assume "cell11 lib st = Inr ptb"
  then show "\<exists>est. IPSW lib (nb_df st) ''A'' ''Y'' ''S'' True (Some ''iptw'')
              ''L + W + W_sq + L:W + L:W_sq'' = Inr est \<and>
         ptb = st\<lparr>nb_rd := Some (risk_difference est)\<rparr>"
    using assms by (rule fits_of_cell11)
next
  assume "cell12 lib st = Inr (bsb, outb)"
  then show "\<exists>rd_bs rd gs.
         length rd_bs = 200 \<and> nb_rd st = Some rd \<and> outb = print_limits rd rd_bs \<and>
         length gs = 201 \<and> gs ! 0 = nb_rng st \<and>
         (\<forall>i<200. \<exists>dfb dfw est.
            resample_stack lib dfss dftp (gs ! i) = Inr (dfb, gs ! Suc i) \<and>
            iptw_step lib dfb = Inr dfw \<and>
            IPSW lib dfw ''A'' ''Y'' ''S'' True (Some ''iptw'')
              ''L + W + L:W'' = Inr est \<and>
            rd_bs ! i = risk_difference est)"
    using assms by (rule fits_of_cell12)
next
  assume "cell5 lib st = Inr ptc"
  then show "\<exists>est. GTransportFormula lib (nb_df st) ''A'' ''Y'' ''S'' True None
              ''A + L + W + W_sq + A:L + A:W + A:W_sq'' = Inr est \<and>
         ptc = st\<lparr>nb_rd := Some (risk_difference est)\<rparr>"
    using assms by (rule fits_of_cell5)
next
  assume "cell6 lib st = Inr (bsc, outc)"
  then show "\<exists>rd_bs rd gs.
         length rd_bs = 200 \<and> nb_rd st = Some rd \<and> outc = print_limits rd rd_bs \<and>
         length gs = 201 \<and> gs ! 0 = nb_rng st \<and>
         (\<forall>i<200. \<exists>dfb est.
            resample_stack lib dfss dftp (gs ! i) = Inr (dfb, gs ! Suc i) \<and>
            GTransportFormula lib dfb ''A'' ''Y'' ''S'' True None
              ''A + L + W + W_sq + A:L + A:W + A:W_sq'' = Inr est \<and>
            rd_bs ! i = risk_difference est)"
    using assms by (rule fits_of_cell6)
next
  assume "cell7 lib st = Inr ptd"
  then show "\<exists>est. AIPSW lib (nb_df st) ''A'' ''Y'' ''S'' True None
              ''L + W + W_sq + L:W + L:W_sq''
              ''A + L + W + W_sq + A:L + A:W + A:W_sq'' = Inr est \<and>
         ptd = st\<lparr>nb_rd := Some (risk_difference est)\<rparr>"
    using assms by (rule fits_of_cell7)
next
  assume "cell8 lib st = Inr (bsd, outd)"
  then show "\<exists>rd_bs rd gs.
         length rd_bs = 200 \<and> nb_rd st = Some rd \<and> outd = print_limits rd rd_bs \<and>
         length gs = 201 \<and> gs ! 0 = nb_rng st \<and>
         (\<forall>i<200. \<exists>dfb est.
            resample_stack lib dfss dftp (gs ! i) = Inr (dfb, gs ! Suc i) \<and>
            AIPSW lib dfb ''A'' ''Y'' ''S'' True None
              ''L + W + W_sq + L:W + L:W_sq''
              ''A + L + W + W_sq + A:L + A:W + A:W_sq'' = Inr est \<and>
            rd_bs ! i = risk_difference est)"
    using assms by (rule fits_of_cell8)
next
  assume "cell14 lib st = Inr pte"
  then show "\<exists>est. AIPSW lib (nb_df st) ''A'' ''Y'' ''S'' True (Some ''iptw'')
              ''L + W + W_sq + L:W + L:W_sq''
              ''A + L + W + W_sq + A:L'' = Inr est \<and>
         pte = st"
    using assms by (rule fits_of_cell14)
next
  assume "cell15 lib st = Inr (bse, oute)"
  then show "\<exists>rd_bs rd gs.
         length rd_bs = 200 \<and> nb_rd st = Some rd \<and> oute = print_limits rd rd_bs \<and>
         length gs = 201 \<and> gs ! 0 = nb_rng st \<and>
         (\<forall>i<200. \<exists>dfb dfw est.
            resample_stack lib dfss dftp (gs ! i) = Inr (dfb, gs ! Suc i) \<and>
            iptw_step lib dfb = Inr dfw \<and>
            AIPSW lib dfw ''A'' ''Y'' ''S'' True (Some ''iptw'')
              ''L + W + W_sq + L:W + L:W_sq''
              ''A + L + W + W_sq + A:L'' = Inr est \<and>
            rd_bs ! i = risk_difference est)"
    using assms by (rule fits_of_cell15)
next
  show "formula_terms ''L + W + L:W'' = [''L'', ''W'', ''L:W'']"
    by (rule formula_terms_literals)
next
  show "formula_terms ''L + W + W_sq + L:W + L:W_sq'' = [''L'', ''W'', ''W_sq'', ''L:W'', ''L:W_sq'']"
    by (rule formula_terms_literals)
next
  show "filter (\<lambda>t. t \<notin> set (formula_terms ''L + W + L:W'')) (formula_terms ''L + W + W_sq + L:W + L:W_sq'')
      = [''W_sq'', ''L:W_sq'']"
    by (simp add: formula_terms_literals)
next
  show "(cell4_ipsw :: 'g library \<Rightarrow> row list \<Rightarrow> pyerr + estimate) \<noteq> cell3_ipsw"
    by (rule ipsw_replicate_differs)
next
  show "(cell12_ipsw :: 'g library \<Rightarrow> row list \<Rightarrow> pyerr + estimate) \<noteq> cell11_ipsw"
    by (rule ipsw_replicate_differs)
qed

theorem replicate_formulas_witness:
  "(\<exists>p est.
      cell3 demo_lib \<lparr>nb_df = demo_rows_iptw, nb_rd = Some (Fin 1), nb_rng = 0\<rparr> = Inr p \<and>
      IPSW demo_lib demo_rows_iptw ''A'' ''Y'' ''S'' True None
          ''L + W + W_sq + L:W + L:W_sq'' = Inr est) \<and>
   (\<exists>b out rd_bs dfb est.
      cell4 demo_lib \<lparr>nb_df = demo_rows_iptw, nb_rd = Some (Fin 1), nb_rng = 0\<rparr> = Inr (b, out) \<and>
      length rd_bs = 200 \<and> out = print_limits (Fin 1) rd_bs \<and>
      IPSW demo_lib dfb ''A'' ''Y'' ''S'' True None
          ''L + W + L:W'' = Inr est \<and>
      rd_bs ! 0 = risk_difference est) \<and>
   (\<exists>p est.
      cell11 demo_lib \<lparr>nb_df = demo_rows_iptw, nb_rd = Some (Fin 1), nb_rng = 0\<rparr> = Inr p \<and>
      IPSW demo_lib demo_rows_iptw ''A'' ''Y'' ''S'' True (Some ''iptw'')
          ''L + W + W_sq + L:W + L:W_sq'' = Inr est) \<and>
   (\<exists>b out rd_bs dfw est.
      cell12 demo_lib \<lparr>nb_df = demo_rows_iptw, nb_rd = Some (Fin 1), nb_rng = 0\<rparr> = Inr (b, out) \<and>
      length rd_bs = 200 \<and> out = print_limits (Fin 1) rd_bs \<and>
      IPSW demo_lib dfw ''A'' ''Y'' ''S'' True (Some ''iptw'')
          ''L + W + L:W'' = Inr est \<and>
      rd_bs ! 0 = risk_difference est) \<and>
   (\<exists>p est.
      cell5 demo_lib \<lparr>nb_df = demo_rows_iptw, nb_rd = Some (Fin 1), nb_rng = 0\<rparr> = Inr p \<and>
      GTransportFormula demo_lib demo_rows_iptw ''A'' ''Y'' ''S'' True None
          ''A + L + W + W_sq + A:L + A:W + A:W_sq'' = Inr est) \<and>
   (\<exists>b out rd_bs dfb est.
      cell6 demo_lib \<lparr>nb_df = demo_rows_iptw, nb_rd = Some (Fin 1), nb_rng = 0\<rparr> = Inr (b, out) \<and>
      length rd_bs = 200 \<and> out = print_limits (Fin 1) rd_bs \<and>
      GTransportFormula demo_lib dfb ''A'' ''Y'' ''S'' True None
          ''A + L + W + W_sq + A:L + A:W + A:W_sq'' = Inr est \<and>
      rd_bs ! 0 = risk_difference est) \<and>
   (\<exists>p est.
      cell7 demo_lib \<lparr>nb_df = demo_rows_iptw, nb_rd = Some (Fin 1), nb_rng = 0\<rparr> = Inr p \<and>
      AIPSW demo_lib demo_rows_iptw ''A'' ''Y'' ''S'' True None
          ''L + W + W_sq + L:W + L:W_sq''
          ''A + L + W + W_sq + A:L + A:W + A:W_sq'' = Inr est) \<and>
   (\<exists>b out rd_bs dfb est.
      cell8 demo_lib \<lparr>nb_df = demo_rows_iptw, nb_rd = Some (Fin 1), nb_rng = 0\<rparr> = Inr (b, out) \<and>
      length rd_bs = 200 \<and> out = print_limits (Fin 1) rd_bs \<and>
      AIPSW demo_lib dfb ''A'' ''Y'' ''S'' True None
          ''L + W + W_sq + L:W + L:W_sq''
          ''A + L + W + W_sq + A:L + A:W + A:W_sq'' = Inr est \<and>
      rd_bs ! 0 = risk_difference est) \<and>
   (\<exists>p est.
      cell14 demo_lib \<lparr>nb_df = demo_rows_iptw, nb_rd = Some (Fin 1), nb_rng = 0\<rparr> = Inr p \<and>
      AIPSW demo_lib demo_rows_iptw ''A'' ''Y'' ''S'' True (Some ''iptw'')
          ''L + W + W_sq + L:W + L:W_sq''
          ''A + L + W + W_sq + A:L'' = Inr est) \<and>
   (\<exists>b out rd_bs dfw est.
      cell15 demo_lib \<lparr>nb_df = demo_rows_iptw, nb_rd = Some (Fin 1), nb_rng = 0\<rparr> = Inr (b, out) \<and>
      length rd_bs = 200 \<and> out = print_limits (Fin 1) rd_bs \<and>
      AIPSW demo_lib dfw ''A'' ''Y'' ''S'' True (Some ''iptw'')
          ''L + W + W_sq + L:W + L:W_sq''
          ''A + L + W + W_sq + A:L'' = Inr est \<and>
      rd_bs ! 0 = risk_difference est)"
proof -
  let ?S = "\<lparr>nb_df = demo_rows_iptw, nb_rd = Some (Fin 1), nb_rng = 0::nat\<rparr>"
  have ls: "length (df_loc_S (nb_df ?S) 1) = 2" by (simp add: demo_rows_iptw_def df_loc_S_def)
  have lt: "length (df_loc_S (nb_df ?S) 0) = 2" by (simp add: demo_rows_iptw_def df_loc_S_def)
  have rd: "nb_rd ?S = Some (Fin 1)" by simp
  have z: "(0::nat) < 200" by simp
  note t = replicate_formulas[where lib = demo_lib and st = ?S, OF refl refl]
  note c1 = t[THEN conjunct1] and t1 = t[THEN conjunct2]
  note c2 = t1[THEN conjunct1] and t2 = t1[THEN conjunct2]
  note c3 = t2[THEN conjunct1] and t3 = t2[THEN conjunct2]
  note c4 = t3[THEN conjunct1] and t4 = t3[THEN conjunct2]
  note c5 = t4[THEN conjunct1] and t5 = t4[THEN conjunct2]
  note c6 = t5[THEN conjunct1] and t6 = t5[THEN conjunct2]
  note c7 = t6[THEN conjunct1] and t7 = t6[THEN conjunct2]
  note c8 = t7[THEN conjunct1] and t8 = t7[THEN conjunct2]
  note c9 = t8[THEN conjunct1] and t9 = t8[THEN conjunct2]
  note c10 = t9[THEN conjunct1] and t10 = t9[THEN conjunct2]
  have p1: "(\<exists>p est.
      cell3 demo_lib ?S = Inr p \<and>
      IPSW demo_lib demo_rows_iptw ''A'' ''Y'' ''S'' True None
          ''L + W + W_sq + L:W + L:W_sq'' = Inr est)"
  proof -
    obtain p where r: "cell3 demo_lib ?S = Inr p"
      by (simp add: cell3_def cell3_ipsw_def demo_lib_def)
    from c1[rule_format, OF r] show ?thesis using r by auto
  qed
  have p2: "(\<exists>b out rd_bs dfb est.
      cell4 demo_lib ?S = Inr (b, out) \<and>
      length rd_bs = 200 \<and> out = print_limits (Fin 1) rd_bs \<and>
      IPSW demo_lib dfb ''A'' ''Y'' ''S'' True None
          ''L + W + L:W'' = Inr est \<and>
      rd_bs ! 0 = risk_difference est)"
  proof -
    have "\<exists>est. cell4_ipsw demo_lib dfb = Inr est" for dfb
      by (simp add: cell4_ipsw_def demo_lib_def)
    from demo_bootstrap_cell_total[of "cell4_ipsw demo_lib" ?S "Fin 1" 200, OF this ls lt rd]
    obtain b out where r: "cell4 demo_lib ?S = Inr (b, out)"
      unfolding cell4_def by blast
    from c2[rule_format, OF r] obtain rd_bs rd' gs where
      h: "length rd_bs = 200" "nb_rd ?S = Some rd'" "out = print_limits rd' rd_bs"
         "\<forall>i<200. \<exists>dfb est.
            resample_stack demo_lib (df_loc_S (nb_df ?S) 1) (df_loc_S (nb_df ?S) 0) (gs ! i)
              = Inr (dfb, gs ! Suc i) \<and>
            IPSW demo_lib dfb ''A'' ''Y'' ''S'' True None
              ''L + W + L:W'' = Inr est \<and>
            rd_bs ! i = risk_difference est"
      by blast
    from h(4)[rule_format, OF z] obtain dfb est where
      "IPSW demo_lib dfb ''A'' ''Y'' ''S'' True None
          ''L + W + L:W'' = Inr est" "rd_bs ! 0 = risk_difference est"
      by blast
    moreover from h(2) have "rd' = Fin 1" by simp
    ultimately show ?thesis using r h(1,3) by blast
  qed
  have p3: "(\<exists>p est.
      cell11 demo_lib ?S = Inr p \<and>
      IPSW demo_lib demo_rows_iptw ''A'' ''Y'' ''S'' True (Some ''iptw'')
          ''L + W + W_sq + L:W + L:W_sq'' = Inr est)"
  proof -
    obtain p where r: "cell11 demo_lib ?S = Inr p"
      by (simp add: cell11_def cell11_ipsw_def demo_lib_def)
    from c3[rule_format, OF r] show ?thesis using r by auto
  qed
  have p4: "(\<exists>b out rd_bs dfw est.
      cell12 demo_lib ?S = Inr (b, out) \<and>
      length rd_bs = 200 \<and> out = print_limits (Fin 1) rd_bs \<and>
      IPSW demo_lib dfw ''A'' ''Y'' ''S'' True (Some ''iptw'')
          ''L + W + L:W'' = Inr est \<and>
      rd_bs ! 0 = risk_difference est)"
  proof -
    have "\<exists>est. cell12_fit demo_lib dfb = Inr est" for dfb
    proof -
      obtain df' where "iptw_step demo_lib dfb = Inr df'" using demo_iptw_step_total by blast
      then have "cell12_fit demo_lib dfb = cell12_ipsw demo_lib df'" by (simp add: cell12_fit_def)
      then show ?thesis by (simp add: cell12_ipsw_def demo_lib_def)
    qed
    from demo_bootstrap_cell_total[of "cell12_fit demo_lib" ?S "Fin 1" 200, OF this ls lt rd]
    obtain b out where r: "cell12 demo_lib ?S = Inr (b, out)"
      unfolding cell12_def by blast
    from c4[rule_format, OF r] obtain rd_bs rd' gs where
      h: "length rd_bs = 200" "nb_rd ?S = Some rd'" "out = print_limits rd' rd_bs"
         "\<forall>i<200. \<exists>dfb dfw est.
            resample_stack demo_lib (df_loc_S (nb_df ?S) 1) (df_loc_S (nb_df ?S) 0) (gs ! i)
              = Inr (dfb, gs ! Suc i) \<and>
            iptw_step demo_lib dfb = Inr dfw \<and>
            IPSW demo_lib dfw ''A'' ''Y'' ''S'' True (Some ''iptw'')
              ''L + W + L:W'' = Inr est \<and>
            rd_bs ! i = risk_difference est"
      by blast
    from h(4)[rule_format, OF z] obtain dfw est where
      "IPSW demo_lib dfw ''A'' ''Y'' ''S'' True (Some ''iptw'')
          ''L + W + L:W'' = Inr est" "rd_bs ! 0 = risk_difference est"
      by blast
    moreover from h(2) have "rd' = Fin 1" by simp
    ultimately show ?thesis using r h(1,3) by blast
  qed
  have p5: "(\<exists>p est.
      cell5 demo_lib ?S = Inr p \<and>
      GTransportFormula demo_lib demo_rows_iptw ''A'' ''Y'' ''S'' True None
          ''A + L + W + W_sq + A:L + A:W + A:W_sq'' = Inr est)"
  proof -
    obtain p where r: "cell5 demo_lib ?S = Inr p"
      by (simp add: cell5_def cell5_gtf_def demo_lib_def)
    from c5[rule_format, OF r] show ?thesis using r by auto
  qed
  have p6: "(\<exists>b out rd_bs dfb est.
      cell6 demo_lib ?S = Inr (b, out) \<and>
      length rd_bs = 200 \<and> out = print_limits (Fin 1) rd_bs \<and>
      GTransportFormula demo_lib dfb ''A'' ''Y'' ''S'' True None
          ''A + L + W + W_sq + A:L + A:W + A:W_sq'' = Inr est \<and>
      rd_bs ! 0 = risk_difference est)"
  proof -
    have "\<exists>est. cell6_gtf demo_lib dfb = Inr est" for dfb
      by (simp add: cell6_gtf_def demo_lib_def)
    from demo_bootstrap_cell_total[of "cell6_gtf demo_lib" ?S "Fin 1" 200, OF this ls lt rd]
    obtain b out where r: "cell6 demo_lib ?S = Inr (b, out)"
      unfolding cell6_def by blast
    from c6[rule_format, OF r] obtain rd_bs rd' gs where
      h: "length rd_bs = 200" "nb_rd ?S = Some rd'" "out = print_limits rd' rd_bs"
         "\<forall>i<200. \<exists>dfb est.
            resample_stack demo_lib (df_loc_S (nb_df ?S) 1) (df_loc_S (nb_df ?S) 0) (gs ! i)
              = Inr (dfb, gs ! Suc i) \<and>
            GTransportFormula demo_lib dfb ''A'' ''Y'' ''S'' True None
              ''A + L + W + W_sq + A:L + A:W + A:W_sq'' = Inr est \<and>
            rd_bs ! i = risk_difference est"
      by blast
    from h(4)[rule_format, OF z] obtain dfb est where
      "GTransportFormula demo_lib dfb ''A'' ''Y'' ''S'' True None
          ''A + L + W + W_sq + A:L + A:W + A:W_sq'' = Inr est" "rd_bs ! 0 = risk_difference est"
      by blast
    moreover from h(2) have "rd' = Fin 1" by simp
    ultimately show ?thesis using r h(1,3) by blast
  qed
  have p7: "(\<exists>p est.
      cell7 demo_lib ?S = Inr p \<and>
      AIPSW demo_lib demo_rows_iptw ''A'' ''Y'' ''S'' True None
          ''L + W + W_sq + L:W + L:W_sq''
          ''A + L + W + W_sq + A:L + A:W + A:W_sq'' = Inr est)"
  proof -
    obtain p where r: "cell7 demo_lib ?S = Inr p"
      by (simp add: cell7_def cell7_aipw_def demo_lib_def)
    from c7[rule_format, OF r] show ?thesis using r by auto
  qed
  have p8: "(\<exists>b out rd_bs dfb est.
      cell8 demo_lib ?S = Inr (b, out) \<and>
      length rd_bs = 200 \<and> out = print_limits (Fin 1) rd_bs \<and>
      AIPSW demo_lib dfb ''A'' ''Y'' ''S'' True None
          ''L + W + W_sq + L:W + L:W_sq''
          ''A + L + W + W_sq + A:L + A:W + A:W_sq'' = Inr est \<and>
      rd_bs ! 0 = risk_difference est)"
  proof -
    have "\<exists>est. cell8_aipw demo_lib dfb = Inr est" for dfb
      by (simp add: cell8_aipw_def demo_lib_def)
    from demo_bootstrap_cell_total[of "cell8_aipw demo_lib" ?S "Fin 1" 200, OF this ls lt rd]
    obtain b out where r: "cell8 demo_lib ?S = Inr (b, out)"
      unfolding cell8_def by blast
    from c8[rule_format, OF r] obtain rd_bs rd' gs where
      h: "length rd_bs = 200" "nb_rd ?S = Some rd'" "out = print_limits rd' rd_bs"
         "\<forall>i<200. \<exists>dfb est.
            resample_stack demo_lib (df_loc_S (nb_df ?S) 1) (df_loc_S (nb_df ?S) 0) (gs ! i)
              = Inr (dfb, gs ! Suc i) \<and>
            AIPSW demo_lib dfb ''A'' ''Y'' ''S'' True None
              ''L + W + W_sq + L:W + L:W_sq''
              ''A + L + W + W_sq + A:L + A:W + A:W_sq'' = Inr est \<and>
            rd_bs ! i = risk_difference est"
      by blast
    from h(4)[rule_format, OF z] obtain dfb est where
      "AIPSW demo_lib dfb ''A'' ''Y'' ''S'' True None
          ''L + W + W_sq + L:W + L:W_sq''
          ''A + L + W + W_sq + A:L + A:W + A:W_sq'' = Inr est" "rd_bs ! 0 = risk_difference est"
      by blast
    moreover from h(2) have "rd' = Fin 1" by simp
    ultimately show ?thesis using r h(1,3) by blast
  qed
  have p9: "(\<exists>p est.
      cell14 demo_lib ?S = Inr p \<and>
      AIPSW demo_lib demo_rows_iptw ''A'' ''Y'' ''S'' True (Some ''iptw'')
          ''L + W + W_sq + L:W + L:W_sq''
          ''A + L + W + W_sq + A:L'' = Inr est)"
  proof -
    obtain p where r: "cell14 demo_lib ?S = Inr p"
      by (simp add: cell14_def cell14_aipw_def demo_lib_def)
    from c9[rule_format, OF r] show ?thesis using r by auto
  qed
  have p10: "(\<exists>b out rd_bs dfw est.
      cell15 demo_lib ?S = Inr (b, out) \<and>
      length rd_bs = 200 \<and> out = print_limits (Fin 1) rd_bs \<and>
      AIPSW demo_lib dfw ''A'' ''Y'' ''S'' True (Some ''iptw'')
          ''L + W + W_sq + L:W + L:W_sq''
          ''A + L + W + W_sq + A:L'' = Inr est \<and>
      rd_bs ! 0 = risk_difference est)"
  proof -
    have "\<exists>est. cell15_fit demo_lib dfb = Inr est" for dfb
    proof -
      obtain df' where "iptw_step demo_lib dfb = Inr df'" using demo_iptw_step_total by blast
      then have "cell15_fit demo_lib dfb = cell15_aipw demo_lib df'" by (simp add: cell15_fit_def)
      then show ?thesis by (simp add: cell15_aipw_def demo_lib_def)
    qed
    from demo_bootstrap_cell_total[of "cell15_fit demo_lib" ?S "Fin 1" 200, OF this ls lt rd]
    obtain b out where r: "cell15 demo_lib ?S = Inr (b, out)"
      unfolding cell15_def by blast
    from c10[rule_format, OF r] obtain rd_bs rd' gs where
      h: "length rd_bs = 200" "nb_rd ?S = Some rd'" "out = print_limits rd' rd_bs"
         "\<forall>i<200. \<exists>dfb dfw est.
            resample_stack demo_lib (df_loc_S (nb_df ?S) 1) (df_loc_S (nb_df ?S) 0) (gs ! i)
              = Inr (dfb, gs ! Suc i) \<and>
            iptw_step demo_lib dfb = Inr dfw \<and>
            AIPSW demo_lib dfw ''A'' ''Y'' ''S'' True (Some ''iptw'')
              ''L + W + W_sq + L:W + L:W_sq''
              ''A + L + W + W_sq + A:L'' = Inr est \<and>
            rd_bs ! i = risk_difference est"
      by blast
    from h(4)[rule_format, OF z] obtain dfw est where
      "AIPSW demo_lib dfw ''A'' ''Y'' ''S'' True (Some ''iptw'')
          ''L + W + W_sq + L:W + L:W_sq''
          ''A + L + W + W_sq + A:L'' = Inr est" "rd_bs ! 0 = risk_difference est"
      by blast
    moreover from h(2) have "rd' = Fin 1" by simp
    ultimately show ?thesis using r h(1,3) by blast
  qed
  from p1 p2 p3 p4 p5 p6 p7 p8 p9 p10 show ?thesis by (intro conjI)
qed

end
